theory Spec2Isabelle
  imports Main "HOL-Library.Word"
begin

unbundle bit_operations_syntax

section \<open>Data model of \<open>Source/Core/Core/PowerPC/MMU.h\<close>\<close>

type_synonym u8 = "8 word"
type_synonym u16 = "16 word"
type_synonym u32 = "32 word"
type_synonym u64 = "64 word"

text \<open>\<open>enum class RequestedAddressSpace\<close>.\<close>

datatype RequestedAddressSpace =
    Effective   \<comment> \<open>whatever the current MMU state is\<close>
  | Physical    \<comment> \<open>as if the MMU was turned off\<close>
  | Virtual     \<comment> \<open>specifically want MMU turned on, fails if off\<close>

text \<open>
  \<open>struct ReadResult<T>\<close> and \<open>struct WriteResult\<close>. The field \<open>value\<close> of the
  source is \<open>rvalue\<close> here (\<open>value\<close> is a reserved word of the prover).
\<close>

record 'v ReadResult =
  translated :: bool
  rvalue :: 'v

record WriteResult =
  translated :: bool

text \<open>The BAT constants, with the C++ types they have in the header.\<close>

definition BAT_INDEX_SHIFT :: nat where
  "BAT_INDEX_SHIFT = 17"

definition BAT_PAGE_SIZE :: u32 where
  "BAT_PAGE_SIZE = push_bit BAT_INDEX_SHIFT 1"

definition BAT_PAGE_COUNT :: u32 where
  "BAT_PAGE_COUNT = push_bit (32 - BAT_INDEX_SHIFT) 1"

definition BAT_MAPPED_BIT :: u32 where
  "BAT_MAPPED_BIT = 0x1"

definition BAT_PHYSICAL_BIT :: u32 where
  "BAT_PHYSICAL_BIT = 0x2"

definition BAT_WI_BIT :: u32 where
  "BAT_WI_BIT = 0x4"

definition BAT_RESULT_MASK :: u32 where
  "BAT_RESULT_MASK = NOT 0x7"

text \<open>
  \<open>using BatTable = std::array<u32, BAT_PAGE_COUNT>\<close>: the sequences of exactly
  \<open>BAT_PAGE_COUNT\<close> 32-bit entries.
\<close>

typedef BatTable = "{xs :: u32 list. length xs = unat BAT_PAGE_COUNT}"
  by (rule exI [of _ "replicate (unat BAT_PAGE_COUNT) 0"]) simp

definition HW_PAGE_SIZE :: nat where
  "HW_PAGE_SIZE = 4096"

definition HW_PAGE_MASK :: nat where
  "HW_PAGE_MASK = HW_PAGE_SIZE - 1"

definition HW_PAGE_INDEX_SHIFT :: nat where
  "HW_PAGE_INDEX_SHIFT = 12"

definition HW_PAGE_INDEX_MASK :: u32 where
  "HW_PAGE_INDEX_MASK = 0x3f"

text \<open>\<open>enum class XCheckTLBFlag\<close>.\<close>

datatype XCheckTLBFlag = NoException | Read | Write | Opcode | OpcodeNoException

text \<open>
  \<open>enum class TranslateAddressResultEnum : u8\<close>. The enumerators carry the values
  0, 1, 2, 3 in declaration order; \<open>Success\<close> compares them.
\<close>

datatype TranslateAddressResultEnum =
  BAT_TRANSLATED | PAGE_TABLE_TRANSLATED | DIRECT_STORE_SEGMENT | PAGE_FAULT

fun enum_value :: "TranslateAddressResultEnum \<Rightarrow> u8" where
  "enum_value BAT_TRANSLATED = 0"
| "enum_value PAGE_TABLE_TRANSLATED = 1"
| "enum_value DIRECT_STORE_SEGMENT = 2"
| "enum_value PAGE_FAULT = 3"

record TranslateAddressResult =
  address :: u32
  result :: TranslateAddressResultEnum
  wi :: bool

text \<open>The constructor \<open>TranslateAddressResult(result_, address_, wi_ = false)\<close>.\<close>

definition mk_TranslateAddressResult ::
  "TranslateAddressResultEnum \<Rightarrow> u32 \<Rightarrow> bool \<Rightarrow> TranslateAddressResult" where
  "mk_TranslateAddressResult result' address' wi' =
     \<lparr>address = address', result = result', wi = wi'\<rparr>"

definition Success :: "TranslateAddressResult \<Rightarrow> bool" where
  "Success r = (enum_value (result r) \<le> enum_value PAGE_TABLE_TRANSLATED)"

text \<open>
  Modelled from the spec: \<open>Common/BitField.h\<close> is not among the sources.
  \<open>BitField<position, bits, u32>\<close> is the field of \<open>bits\<close> bits that starts at bit
  \<open>position\<close> (bit 0 the least significant) of the 32-bit storage it shares with the
  other members of the union.
\<close>

definition BitField :: "nat \<Rightarrow> nat \<Rightarrow> u32 \<Rightarrow> u32" where
  "BitField position bits storage = take_bit bits (drop_bit position storage)"

text \<open>
  \<open>union EffectiveAddress\<close>: the storage \<open>Hex\<close> and the four bit-field members that
  read it.
\<close>

record EffectiveAddress =
  Hex :: u32

definition mk_EffectiveAddress :: "u32 \<Rightarrow> EffectiveAddress" where
  "mk_EffectiveAddress addr = \<lparr>Hex = addr\<rparr>"

definition offset :: "EffectiveAddress \<Rightarrow> u32" where
  "offset ea = BitField 0 12 (Hex ea)"

definition page_index :: "EffectiveAddress \<Rightarrow> u32" where
  "page_index ea = BitField 12 16 (Hex ea)"

definition API :: "EffectiveAddress \<Rightarrow> u32" where
  "API ea = BitField 22 6 (Hex ea)"

definition SR :: "EffectiveAddress \<Rightarrow> u32" where
  "SR ea = BitField 28 4 (Hex ea)"

section \<open>The host access facade and the guest accessors\<close>

text \<open>
  The templates of the header call four members whose bodies live in \<open>MMU.cpp\<close>, which
  is not among the sources, and read \<open>m_ppc_state.msr.DR\<close>. They are the parameters of
  the model: a record of operations over an arbitrary machine state \<open>'s\<close>. Every
  operation that may touch the machine takes the state and returns the new one. The
  template arguments \<open>flag\<close> and \<open>never_translate\<close> are ordinary arguments; the unsigned
  type \<open>U\<close> of \<open>ReadFromHardware\<close> is given by its size in bytes, and the value read
  comes back zero-extended to 64 bits. \<open>HostIsRAMAddress\<close> ("Returns whether a read or
  write to the given address will resolve to a RAM access in the given address space")
  and the read of \<open>msr.DR\<close> are queries: they take the state and leave it as it is.
\<close>

record 's MMU_ops =
  msr_DR :: "'s \<Rightarrow> bool"
  HostIsRAMAddress :: "'s \<Rightarrow> u32 \<Rightarrow> RequestedAddressSpace \<Rightarrow> bool"
  ReadFromHardware :: "XCheckTLBFlag \<Rightarrow> nat \<Rightarrow> bool \<Rightarrow> u32 \<Rightarrow> 's \<Rightarrow> u64 \<times> 's"
  WriteToHardware :: "XCheckTLBFlag \<Rightarrow> bool \<Rightarrow> u32 \<Rightarrow> u32 \<Rightarrow> u32 \<Rightarrow> 's \<Rightarrow> 's"
  Memcheck :: "u32 \<Rightarrow> u64 \<Rightarrow> bool \<Rightarrow> nat \<Rightarrow> 's \<Rightarrow> 's"

text \<open>\<open>sizeof(T)\<close> for a value type of \<open>LENGTH('a)\<close> bits.\<close>

definition sizeof :: "'a::len itself \<Rightarrow> nat" where
  "sizeof t = LENGTH('a) div 8"

text \<open>
  \<open>HostRead<T>\<close>: one probing read; \<open>std::bit_cast<T>\<close> keeps the bits of the
  \<open>sizeof(T)\<close>-byte value.
\<close>

definition HostRead :: "'s MMU_ops \<Rightarrow> u32 \<Rightarrow> 's \<Rightarrow> ('a::len word) \<times> 's" where
  "HostRead mmu addr s =
     (case ReadFromHardware mmu NoException (sizeof TYPE('a)) False addr s of
        (v, s') \<Rightarrow> (ucast v, s'))"

text \<open>\<open>HostTryRead<T>\<close>.\<close>

definition HostTryRead ::
  "'s MMU_ops \<Rightarrow> u32 \<Rightarrow> RequestedAddressSpace \<Rightarrow> 's \<Rightarrow> ('a::len word) ReadResult option \<times> 's" where
  "HostTryRead mmu addr space s =
     (if \<not> HostIsRAMAddress mmu s addr space then (None, s)
      else case space of
        Effective \<Rightarrow>
          (case ReadFromHardware mmu NoException (sizeof TYPE('a)) False addr s of
             (v, s') \<Rightarrow>
               (Some \<lparr>ReadResult.translated = msr_DR mmu s', rvalue = ucast v\<rparr>, s'))
      | Physical \<Rightarrow>
          (case ReadFromHardware mmu NoException (sizeof TYPE('a)) True addr s of
             (v, s') \<Rightarrow>
               (Some \<lparr>ReadResult.translated = False, rvalue = ucast v\<rparr>, s'))
      | Virtual \<Rightarrow>
          (if \<not> msr_DR mmu s then (None, s)
           else case ReadFromHardware mmu NoException (sizeof TYPE('a)) False addr s of
             (v, s') \<Rightarrow>
               (Some \<lparr>ReadResult.translated = True, rvalue = ucast v\<rparr>, s')))"

text \<open>
  \<open>HostWrite<T>\<close> for \<open>!Size64<T>\<close>. \<open>var\<close> has a type of its own (\<open>const auto\<close>);
  \<open>static_cast<u32>\<close> keeps its low 32 bits, and the size passed on is \<open>sizeof(T)\<close>.
\<close>

definition HostWrite :: "'s MMU_ops \<Rightarrow> u32 \<Rightarrow> 'b::len word \<Rightarrow> u32 \<Rightarrow> 's \<Rightarrow> 's" where
  "HostWrite mmu sizeof_T var addr s =
     WriteToHardware mmu NoException False addr (ucast var) sizeof_T s"

text \<open>\<open>HostWrite<T>\<close> for \<open>Size64<T>\<close>.\<close>

definition HostWrite_Size64 :: "'s MMU_ops \<Rightarrow> u64 \<Rightarrow> u32 \<Rightarrow> 's \<Rightarrow> 's" where
  "HostWrite_Size64 mmu var addr s =
     (let s1 = WriteToHardware mmu NoException False addr (ucast (drop_bit 32 var)) 4 s
      in WriteToHardware mmu NoException False (addr + 4) (ucast var) 4 s1)"

text \<open>\<open>HostTryWrite<T>\<close> for \<open>!Size64<T>\<close>.\<close>

definition HostTryWrite ::
  "'s MMU_ops \<Rightarrow> u32 \<Rightarrow> 'b::len word \<Rightarrow> u32 \<Rightarrow> RequestedAddressSpace \<Rightarrow> 's
     \<Rightarrow> WriteResult option \<times> 's" where
  "HostTryWrite mmu sizeof_T var addr space s =
     (if \<not> HostIsRAMAddress mmu s addr space then (None, s)
      else case space of
        Effective \<Rightarrow>
          (let s' = WriteToHardware mmu NoException False addr (ucast var) sizeof_T s
           in (Some \<lparr>WriteResult.translated = msr_DR mmu s'\<rparr>, s'))
      | Physical \<Rightarrow>
          (let s' = WriteToHardware mmu NoException True addr (ucast var) sizeof_T s
           in (Some \<lparr>WriteResult.translated = False\<rparr>, s'))
      | Virtual \<Rightarrow>
          (if \<not> msr_DR mmu s then (None, s)
           else let s' = WriteToHardware mmu NoException False addr (ucast var) sizeof_T s
                in (Some \<lparr>WriteResult.translated = True\<rparr>, s')))"

text \<open>
  \<open>HostTryWrite<T>\<close> for \<open>Size64<T>\<close>: two calls of \<open>HostTryWrite<u32>\<close>, the second
  only when the first returned a value.
\<close>

definition HostTryWrite_Size64 ::
  "'s MMU_ops \<Rightarrow> u64 \<Rightarrow> u32 \<Rightarrow> RequestedAddressSpace \<Rightarrow> 's \<Rightarrow> WriteResult option \<times> 's" where
  "HostTryWrite_Size64 mmu var addr space s =
     (case HostTryWrite mmu 4 (ucast (drop_bit 32 var) :: u32) addr space s of
        (None, s1) \<Rightarrow> (None, s1)
      | (Some r, s1) \<Rightarrow> HostTryWrite mmu 4 (ucast var :: u32) (addr + 4) space s1)"

text \<open>The guest accessors \<open>Read<T>\<close> and \<open>Write<T>\<close> (both overloads).\<close>

definition Read_guest :: "'s MMU_ops \<Rightarrow> u32 \<Rightarrow> 's \<Rightarrow> ('a::len word) \<times> 's" where
  "Read_guest mmu addr s =
     (case ReadFromHardware mmu Read (sizeof TYPE('a)) False addr s of
        (var, s1) \<Rightarrow>
          (ucast var,
           Memcheck mmu addr (ucast (ucast var :: 'a word)) False (sizeof TYPE('a)) s1))"

definition Write_guest :: "'s MMU_ops \<Rightarrow> u32 \<Rightarrow> 'b::len word \<Rightarrow> u32 \<Rightarrow> 's \<Rightarrow> 's" where
  "Write_guest mmu sizeof_T var addr s =
     (let s1 = Memcheck mmu addr (ucast var) True (unat sizeof_T) s
      in WriteToHardware mmu Write False addr (ucast var) sizeof_T s1)"

definition Write_guest_Size64 :: "'s MMU_ops \<Rightarrow> u64 \<Rightarrow> u32 \<Rightarrow> 's \<Rightarrow> 's" where
  "Write_guest_Size64 mmu var addr s =
     (let s0 = Memcheck mmu addr var True 8 s;
          s1 = WriteToHardware mmu Write False addr (ucast (drop_bit 32 var)) 4 s0
      in WriteToHardware mmu Write False (addr + 4) (ucast var) 4 s1)"

section \<open>The machine behind the accessors\<close>

text \<open>
  \<open>MMU.cpp\<close>, \<open>PowerPC.h\<close> and the memory manager are not among the sources. The
  definitions of this section are modelled from the spec (sections 3, 4.1 to 4.4, 6
  and 7); each says which sentences it follows. They give the operations of
  \<open>MMU_ops\<close> one concrete meaning, over a machine state that holds what the spec
  lists: the translation-enable bits, the segment registers, the two BAT tables, the
  page table, the MMIO regions, the RAM, the exceptions raised and the diagnostics shown
  so far.
\<close>

text \<open>
  Modelled from the spec: the indexing of a \<open>BatTable\<close>, absent with \<open>MMU.cpp\<close>. The
  entry of an address is the one at the page number \<open>address >> BAT_INDEX_SHIFT\<close>
  (section 3: "indexed by page number").
\<close>

definition bat_entry :: "BatTable \<Rightarrow> u32 \<Rightarrow> u32" where
  "bat_entry t addr = Rep_BatTable t ! unat (drop_bit BAT_INDEX_SHIFT addr)"

text \<open>
  Modelled from the spec: a table with every entry the same (section 4.1: pages outside
  every BAT range are unmapped, entry 0). The rebuild of a table from the BAT registers
  (\<open>UpdateBATs\<close>) is absent with \<open>MMU.cpp\<close> and is not modelled.
\<close>

definition bat_fill :: "u32 \<Rightarrow> BatTable" where
  "bat_fill v = Abs_BatTable (replicate (unat BAT_PAGE_COUNT) v)"

text \<open>
  Modelled from the spec: a table with the entry of one page replaced, as a rebuild does
  for a page that a BAT covers (section 4.1).
\<close>

definition bat_update :: "BatTable \<Rightarrow> u32 \<Rightarrow> u32 \<Rightarrow> BatTable" where
  "bat_update t addr v =
     Abs_BatTable ((Rep_BatTable t)[unat (drop_bit BAT_INDEX_SHIFT addr) := v])"

text \<open>
  Modelled from the spec: the guest exceptions of section 7, raised by
  \<open>GenerateDSIException(effective_address, write)\<close> and
  \<open>GenerateISIException(effective_address)\<close>, whose bodies are absent.
\<close>

datatype Exception = DSI u32 bool | ISI u32

text \<open>
  Modelled from the spec: a segment register says whether its segment is a direct-store
  segment and otherwise names the segment (section 4.2, step 3).
\<close>

record SegmentRegister =
  direct_store :: bool
  vsid :: u32

text \<open>
  Modelled from the spec: a page-table entry has a validity bit, the abbreviated page
  index it matches, the physical page it maps to, the referenced and changed bits and the
  write-through or cache-inhibited flag (section 4.2, step 4, and section 3 on
  \<open>TranslateAddressResult\<close>).
\<close>

record PTE =
  pte_valid :: bool
  pte_API :: u32
  pte_RPN :: u32
  pte_R :: bool
  pte_C :: bool
  pte_WI :: bool

text \<open>
  Modelled from the spec: the state the MMU works on (sections 3 and 6). \<open>pteg_hash\<close>
  is the hash of segment and abbreviated page index that locates a page-table entry
  group, \<open>page_table\<close> the groups in backing memory, \<open>IsMMIOAddress\<close> and
  \<open>mmio_value\<close> the memory manager's view of device registers, \<open>mmio_writes\<close> the
  writes handed to the MMIO handler, \<open>ram\<close> the bytes of physical RAM (no value where
  there is no RAM), \<open>memchecks\<close> and \<open>debugger_break\<close> the memory breakpoints,
  \<open>exceptions\<close> the guest exceptions raised so far, and \<open>panic_alerts\<close> the user-visible
  diagnostics shown so far (section 7, kind (c); the header's comments on \<open>HostRead\<close> and
  \<open>HostWrite\<close>: "a PanicAlert will be shown to the user"), each with the physical address
  that could not be resolved.
\<close>

record Machine =
  DR :: bool
  IR :: bool
  segment_registers :: "u32 \<Rightarrow> SegmentRegister"
  m_ibat_table :: BatTable
  m_dbat_table :: BatTable
  pteg_hash :: "u32 \<Rightarrow> u32 \<Rightarrow> u32"
  page_table :: "u32 \<Rightarrow> PTE list"
  IsMMIOAddress :: "u32 \<Rightarrow> bool"
  mmio_value :: "u32 \<Rightarrow> u64"
  mmio_writes :: "(u32 \<times> u32 \<times> u32) list"
  ram :: "u32 \<rightharpoonup> u8"
  memchecks :: "u32 \<Rightarrow> bool"
  debugger_break :: bool
  exceptions :: "Exception list"
  panic_alerts :: "u32 list"

text \<open>
  Modelled from the spec: the instruction modes of \<open>XCheckTLBFlag\<close> (section 4.2, step 5:
  \<open>Opcode\<close> and \<open>OpcodeNoException\<close>), which use the instruction-side table and bit.
\<close>

fun IsOpcodeFlag :: "XCheckTLBFlag \<Rightarrow> bool" where
  "IsOpcodeFlag Opcode = True"
| "IsOpcodeFlag OpcodeNoException = True"
| "IsOpcodeFlag _ = False"

text \<open>
  Modelled from the spec: the lookup-only probing modes (section 4.2, step 5:
  \<open>NoException\<close> and \<open>OpcodeNoException\<close>).
\<close>

fun IsNoExceptionFlag :: "XCheckTLBFlag \<Rightarrow> bool" where
  "IsNoExceptionFlag NoException = True"
| "IsNoExceptionFlag OpcodeNoException = True"
| "IsNoExceptionFlag _ = False"

text \<open>
  Modelled from the spec: section 4.2, step 4, "set referenced on lookup, changed on
  write", and step 5: the probing modes mutate neither bit.
\<close>

fun touch_pte :: "XCheckTLBFlag \<Rightarrow> PTE \<Rightarrow> PTE" where
  "touch_pte NoException p = p"
| "touch_pte OpcodeNoException p = p"
| "touch_pte Read p = p\<lparr>pte_R := True\<rparr>"
| "touch_pte Write p = p\<lparr>pte_R := True, pte_C := True\<rparr>"
| "touch_pte Opcode p = p\<lparr>pte_R := True\<rparr>"

text \<open>
  Modelled from the spec: section 4.2, step 4, "scan for a matching entry (comparing
  API and validity) ... First matching valid entry wins; absence of any match is a
  page-fault". The scan returns the entry found and the group with that entry touched.
\<close>

fun scan_pteg :: "XCheckTLBFlag \<Rightarrow> u32 \<Rightarrow> PTE list \<Rightarrow> (PTE \<times> PTE list) option" where
  "scan_pteg flag api [] = None"
| "scan_pteg flag api (p # ps) =
     (if pte_valid p \<and> pte_API p = api then Some (p, touch_pte flag p # ps)
      else case scan_pteg flag api ps of
        None \<Rightarrow> None
      | Some (q, ps') \<Rightarrow> Some (q, p # ps'))"

text \<open>
  Modelled from the spec: section 4.2, steps 3 to 5, the segment register selected by
  the address decides between a direct-store segment and the page-table walk; the
  touched group is written back to memory except in the probing modes.
\<close>

definition TranslatePageAddress ::
  "XCheckTLBFlag \<Rightarrow> EffectiveAddress \<Rightarrow> Machine \<Rightarrow> TranslateAddressResult \<times> Machine" where
  "TranslatePageAddress flag ea s =
     (let sr = segment_registers s (SR ea) in
      if direct_store sr then (mk_TranslateAddressResult DIRECT_STORE_SEGMENT 0 False, s)
      else
        let group = pteg_hash s (vsid sr) (API ea) in
        case scan_pteg flag (API ea) (page_table s group) of
          None \<Rightarrow> (mk_TranslateAddressResult PAGE_FAULT 0 False, s)
        | Some (p, ps') \<Rightarrow>
            (mk_TranslateAddressResult PAGE_TABLE_TRANSLATED
               (push_bit HW_PAGE_INDEX_SHIFT (pte_RPN p) OR offset ea) (pte_WI p),
             if IsNoExceptionFlag flag then s
             else s\<lparr>page_table := (page_table s)(group := ps')\<rparr>))"

text \<open>
  Modelled from the spec: section 4.2, steps 1 and 2, and section 3, a mapped BAT entry
  of the page short-circuits with the entry ANDed with the result mask, OR'd with the
  offset of the address in the BAT page. Instruction modes read the instruction table,
  the others the data table.
\<close>

definition TranslateAddress ::
  "XCheckTLBFlag \<Rightarrow> u32 \<Rightarrow> Machine \<Rightarrow> TranslateAddressResult \<times> Machine" where
  "TranslateAddress flag addr s =
     (let ea = mk_EffectiveAddress addr;
          entry = bat_entry (if IsOpcodeFlag flag then m_ibat_table s else m_dbat_table s) addr
      in if entry AND BAT_MAPPED_BIT \<noteq> 0
         then (mk_TranslateAddressResult BAT_TRANSLATED
                 ((entry AND BAT_RESULT_MASK) OR (addr AND (BAT_PAGE_SIZE - 1)))
                 (entry AND BAT_WI_BIT \<noteq> 0), s)
         else TranslatePageAddress flag ea s)"

text \<open>
  Modelled from the spec: section 4.3, step 2, and section 7, on a failed translation
  the excepting modes raise the corresponding fault (DSI for data, ISI for
  instructions); the probing modes raise nothing.
\<close>

fun raise_fault :: "XCheckTLBFlag \<Rightarrow> u32 \<Rightarrow> bool \<Rightarrow> Machine \<Rightarrow> Machine" where
  "raise_fault Read addr w s = s\<lparr>exceptions := exceptions s @ [DSI addr w]\<rparr>"
| "raise_fault Write addr w s = s\<lparr>exceptions := exceptions s @ [DSI addr w]\<rparr>"
| "raise_fault Opcode addr w s = s\<lparr>exceptions := exceptions s @ [ISI addr]\<rparr>"
| "raise_fault NoException addr w s = s"
| "raise_fault OpcodeNoException addr w s = s"

text \<open>
  Modelled from the spec: section 4.3, steps 1 and 2, with \<open>never_translate\<close>, or with
  the relocate bit of the access clear, the address is physical as it is; otherwise the
  translator runs in the chosen mode.
\<close>

definition resolve_address ::
  "XCheckTLBFlag \<Rightarrow> bool \<Rightarrow> bool \<Rightarrow> u32 \<Rightarrow> Machine \<Rightarrow> u32 option \<times> Machine" where
  "resolve_address flag never_translate w addr s =
     (if never_translate \<or> \<not> (if IsOpcodeFlag flag then IR s else DR s) then (Some addr, s)
      else case TranslateAddress flag addr s of
        (r, s1) \<Rightarrow>
          if Success r then (Some (address r), s1)
          else (None, raise_fault flag addr w s1))"

text \<open>
  Modelled from the spec: section 4.3, step 3, the guest is big-endian, so the \<open>n\<close> low
  bytes of a value are stored most significant first at consecutive (wrapping) physical
  addresses, and read back in the same order.
\<close>

definition to_be :: "nat \<Rightarrow> u32 \<Rightarrow> u8 list" where
  "to_be n v = map (\<lambda>i. ucast (drop_bit (8 * (n - 1 - i)) v)) [0..<n]"

text \<open>
  Modelled from the spec: section 4.3, step 3, the value of bytes read most significant
  first.
\<close>

definition from_be :: "u8 list \<Rightarrow> u64" where
  "from_be bs = foldl (\<lambda>acc b. push_bit 8 acc OR ucast b) 0 bs"

text \<open>
  Modelled from the spec: section 4.3, step 3, the raw memory access. Bytes go to
  consecutive physical addresses, which wrap around at \<open>2^32\<close>.
\<close>

fun store_bytes :: "(u32 \<rightharpoonup> u8) \<Rightarrow> u32 \<Rightarrow> u8 list \<Rightarrow> (u32 \<rightharpoonup> u8)" where
  "store_bytes m a [] = m"
| "store_bytes m a (b # bs) = store_bytes (m(a \<mapsto> b)) (a + 1) bs"

text \<open>
  Modelled from the spec: section 4.3, step 3, the raw memory read of \<open>n\<close> bytes; no value
  when one of the addresses holds no RAM.
\<close>

definition load_bytes :: "(u32 \<rightharpoonup> u8) \<Rightarrow> u32 \<Rightarrow> nat \<Rightarrow> u8 list option" where
  "load_bytes m a n = those (map (\<lambda>i. m (a + of_nat i)) [0..<n])"

text \<open>
  Modelled from the spec: section 4.3, \<open>ReadFromHardware\<close>. A failed translation gives
  zero and nothing else beyond the fault of an excepting mode (step 2); a physical
  address in an MMIO region goes to the MMIO handler; otherwise the bytes are read from
  RAM. A physical address that resolves to neither is the failed access of section 4.4
  and of the header's comment on \<open>HostRead\<close>: a diagnostic is shown and zero is returned.
\<close>

definition machine_ReadFromHardware ::
  "XCheckTLBFlag \<Rightarrow> nat \<Rightarrow> bool \<Rightarrow> u32 \<Rightarrow> Machine \<Rightarrow> u64 \<times> Machine" where
  "machine_ReadFromHardware flag sz never_translate em_address s =
     (case resolve_address flag never_translate False em_address s of
        (None, s1) \<Rightarrow> (0, s1)
      | (Some pa, s1) \<Rightarrow>
          if IsMMIOAddress s1 pa then (take_bit (8 * sz) (mmio_value s1 pa), s1)
          else case load_bytes (ram s1) pa sz of
            None \<Rightarrow> (0, s1\<lparr>panic_alerts := panic_alerts s1 @ [pa]\<rparr>)
          | Some bs \<Rightarrow> (from_be bs, s1))"

text \<open>
  Modelled from the spec: section 4.3, \<open>WriteToHardware\<close>. A failed translation writes
  nothing and does nothing else beyond the fault of an excepting mode (step 2); a
  physical address in an MMIO region goes to the MMIO handler; otherwise the bytes are
  written to RAM. A physical address that resolves to neither is the failed access of
  section 4.4 and of the header's comment on \<open>HostWrite\<close>: a diagnostic is shown and
  nothing is written.
\<close>

definition machine_WriteToHardware ::
  "XCheckTLBFlag \<Rightarrow> bool \<Rightarrow> u32 \<Rightarrow> u32 \<Rightarrow> u32 \<Rightarrow> Machine \<Rightarrow> Machine" where
  "machine_WriteToHardware flag never_translate em_address data sz s =
     (case resolve_address flag never_translate True em_address s of
        (None, s1) \<Rightarrow> s1
      | (Some pa, s1) \<Rightarrow>
          if IsMMIOAddress s1 pa then s1\<lparr>mmio_writes := mmio_writes s1 @ [(pa, data, sz)]\<rparr>
          else case load_bytes (ram s1) pa (unat sz) of
            None \<Rightarrow> s1\<lparr>panic_alerts := panic_alerts s1 @ [pa]\<rparr>
          | Some old \<Rightarrow> s1\<lparr>ram := store_bytes (ram s1) pa (to_be (unat sz) data)\<rparr>)"

text \<open>
  Modelled from the spec: \<open>IsRAMAddress<NoException>(address, translate)\<close> and
  \<open>HostIsRAMAddress\<close>, declared in the header with the comment "Returns whether a read
  or write to the given address will resolve to a RAM access in the given address
  space"; section 4.4: \<open>Virtual\<close> fails when the translation-enable bit is off.
\<close>

definition IsRAMAddress :: "Machine \<Rightarrow> u32 \<Rightarrow> bool \<Rightarrow> bool" where
  "IsRAMAddress s addr translate =
     (if translate
      then (case TranslateAddress NoException addr s of
              (r, s1) \<Rightarrow>
                Success r \<and> \<not> IsMMIOAddress s (address r) \<and> ram s (address r) \<noteq> None)
      else \<not> IsMMIOAddress s addr \<and> ram s addr \<noteq> None)"

text \<open>
  Modelled from the spec: \<open>HostIsRAMAddress\<close>, by requested address space (section 4.4).
\<close>

definition machine_HostIsRAMAddress :: "Machine \<Rightarrow> u32 \<Rightarrow> RequestedAddressSpace \<Rightarrow> bool" where
  "machine_HostIsRAMAddress s addr space =
     (case space of
        Effective \<Rightarrow> IsRAMAddress s addr (DR s)
      | Physical \<Rightarrow> IsRAMAddress s addr False
      | Virtual \<Rightarrow> if \<not> DR s then False else IsRAMAddress s addr True)"

text \<open>
  Modelled from the spec: section 4.3, the memcheck hook "may trigger a debugger break"
  and "must not alter the read/write result".
\<close>

definition machine_Memcheck :: "u32 \<Rightarrow> u64 \<Rightarrow> bool \<Rightarrow> nat \<Rightarrow> Machine \<Rightarrow> Machine" where
  "machine_Memcheck addr var w sz s =
     (if memchecks s addr then s\<lparr>debugger_break := True\<rparr> else s)"

text \<open>
  Modelled from the spec: the operations of the modelled machine, as the instance of
  \<open>MMU_ops\<close> that the accessors of the header run on.
\<close>

definition machine_ops :: "Machine MMU_ops" where
  "machine_ops =
     \<lparr>msr_DR = DR,
      HostIsRAMAddress = machine_HostIsRAMAddress,
      ReadFromHardware = machine_ReadFromHardware,
      WriteToHardware = machine_WriteToHardware,
      Memcheck = machine_Memcheck\<rparr>"

text \<open>
  Modelled from the spec: a concrete machine for the examples. Translation is on; the
  data and instruction BAT map the effective page \<open>0x80000000\<close> to \<open>0x8001FFFF\<close> onto
  physical page 0 with the mapped and physical bits (the scenario of section 8); segment
  15 is a direct-store segment; one page-table entry maps the page of \<open>0x40000000\<close> to
  physical \<open>0x20000\<close>; there are 24 MiB of zeroed RAM from physical address 0 and one
  MMIO region; no exception has been raised and no diagnostic shown.
\<close>

definition console :: Machine where
  "console =
     \<lparr>DR = True, IR = True,
      segment_registers = (\<lambda>i. \<lparr>direct_store = (i = 15), vsid = i\<rparr>),
      m_ibat_table = bat_update (bat_fill 0) 0x80000000 0x3,
      m_dbat_table = bat_update (bat_fill 0) 0x80000000 0x3,
      pteg_hash = (\<lambda>v api. v XOR api),
      page_table = (\<lambda>g. if g = 4
         then [\<lparr>pte_valid = True, pte_API = 0, pte_RPN = 0x20, pte_R = False,
                pte_C = False, pte_WI = False\<rparr>]
         else []),
      IsMMIOAddress = (\<lambda>a. 0x0C000000 \<le> a \<and> a < 0x0C008000),
      mmio_value = (\<lambda>a. 0),
      mmio_writes = [],
      ram = (\<lambda>a. if a < 0x01800000 then Some 0 else None),
      memchecks = (\<lambda>a. False),
      debugger_break = False,
      exceptions = [],
      panic_alerts = []\<rparr>"

section \<open>Lemmas about the facade\<close>

text \<open>
  What \<open>HostTryWrite\<close> and \<open>HostTryRead\<close> return, and the write the former performs,
  for every instance of the operations.
\<close>

lemma HostTryWrite_None:
  "fst (HostTryWrite mmu sz v a sp s) = None \<Longrightarrow> HostTryWrite mmu sz v a sp s = (None, s)"
  by (cases sp) (auto simp: HostTryWrite_def Let_def split: if_splits)

lemma HostTryWrite_None_iff:
  "(fst (HostTryWrite mmu sz v a sp s) = None) =
     (\<not> HostIsRAMAddress mmu s a sp \<or> (sp = Virtual \<and> \<not> msr_DR mmu s))"
  by (cases sp) (auto simp: HostTryWrite_def Let_def split: if_splits)

lemma HostTryWrite_Some:
  "fst (HostTryWrite mmu sz v a sp s) \<noteq> None \<Longrightarrow>
   snd (HostTryWrite mmu sz v a sp s) = WriteToHardware mmu NoException (sp = Physical) a (ucast v) sz s"
  by (cases sp) (auto simp: HostTryWrite_def Let_def split: if_splits)

lemma Success_cases:
  "Success r = (result r = BAT_TRANSLATED \<or> result r = PAGE_TABLE_TRANSLATED)"
  by (cases "result r") (simp_all add: Success_def word_le_nat_alt)

lemma Hex_mk_EffectiveAddress: "Hex (mk_EffectiveAddress a) = a"
  by (simp add: mk_EffectiveAddress_def)

lemma bit_BitField: "bit (BitField p k w) n = (n < k \<and> bit w (p + n))"
  by (simp add: BitField_def bit_take_bit_iff bit_drop_bit_eq)

lemma unat_BitField: "unat (BitField p k w) = unat w div 2 ^ p mod 2 ^ k"
  unfolding BitField_def unsigned_take_bit_eq unat_drop_bit_eq
  by (simp add: take_bit_eq_mod drop_bit_eq_div)

section \<open>Evaluating the machine\<close>

lemma length_Rep_BatTable: "length (Rep_BatTable t) = unat BAT_PAGE_COUNT"
  using Rep_BatTable [of t] by simp

lemma bat_index_less: "unat (drop_bit BAT_INDEX_SHIFT (a::u32)) < unat BAT_PAGE_COUNT"
proof -
  have "unat (drop_bit 17 a) = unat a div 2 ^ 17"
    by (simp add: drop_bit_eq_div unat_div)
  moreover have "unat a < 2 ^ 32"
    using unsigned_less [of a] by simp
  ultimately show ?thesis
    by (simp add: BAT_INDEX_SHIFT_def BAT_PAGE_COUNT_def less_mult_imp_div_less)
qed

lemma BatTable_abstype [code abstype]: "Abs_BatTable (Rep_BatTable t) = t"
  by (rule Rep_BatTable_inverse)

lemma Rep_bat_fill [code abstract]:
  "Rep_BatTable (bat_fill v) = replicate (unat BAT_PAGE_COUNT) v"
  by (simp add: bat_fill_def Abs_BatTable_inverse)

lemma Rep_bat_update [code abstract]:
  "Rep_BatTable (bat_update t addr v) =
     (Rep_BatTable t)[unat (drop_bit BAT_INDEX_SHIFT addr) := v]"
  by (simp add: bat_update_def Abs_BatTable_inverse length_Rep_BatTable)

lemma bat_entry_fill: "bat_entry (bat_fill v) a = v"
  by (simp add: bat_entry_def bat_fill_def Abs_BatTable_inverse bat_index_less)

lemma bat_entry_update:
  "bat_entry (bat_update t a v) b =
     (if drop_bit BAT_INDEX_SHIFT a = drop_bit BAT_INDEX_SHIFT b then v else bat_entry t b)"
  by (auto simp: bat_entry_def bat_update_def Abs_BatTable_inverse length_Rep_BatTable
      bat_index_less nth_list_update word_unat_eq_iff)

lemmas translate_defs = TranslateAddress_def TranslatePageAddress_def
  mk_TranslateAddressResult_def Success_cases mk_EffectiveAddress_def offset_def API_def
  SR_def BitField_def bat_entry_update bat_entry_fill BAT_INDEX_SHIFT_def BAT_MAPPED_BIT_def
  BAT_RESULT_MASK_def BAT_PAGE_SIZE_def BAT_WI_BIT_def HW_PAGE_INDEX_SHIFT_def Let_def

lemmas access_defs = machine_ReadFromHardware_def machine_WriteToHardware_def
  resolve_address_def load_bytes_def to_be_def from_be_def upt_rec

lemma machine_ops_simps:
  "msr_DR machine_ops = DR"
  "HostIsRAMAddress machine_ops = machine_HostIsRAMAddress"
  "ReadFromHardware machine_ops = machine_ReadFromHardware"
  "WriteToHardware machine_ops = machine_WriteToHardware"
  "Memcheck machine_ops = machine_Memcheck"
  by (simp_all add: machine_ops_def)

lemmas ops_simps = machine_ops_simps machine_HostIsRAMAddress_def IsRAMAddress_def

lemma console_simps:
  "DR console = True" "IR console = True"
  "segment_registers console = (\<lambda>i. \<lparr>direct_store = (i = 15), vsid = i\<rparr>)"
  "m_ibat_table console = bat_update (bat_fill 0) 0x80000000 0x3"
  "m_dbat_table console = bat_update (bat_fill 0) 0x80000000 0x3"
  "pteg_hash console = (\<lambda>v api. v XOR api)"
  "page_table console = (\<lambda>g. if g = 4
         then [\<lparr>pte_valid = True, pte_API = 0, pte_RPN = 0x20, pte_R = False,
                pte_C = False, pte_WI = False\<rparr>]
         else [])"
  "IsMMIOAddress console = (\<lambda>a. 0x0C000000 \<le> a \<and> a < 0x0C008000)"
  "mmio_value console = (\<lambda>a. 0)"
  "mmio_writes console = []"
  "ram console = (\<lambda>a. if a < 0x01800000 then Some 0 else None)"
  "memchecks console = (\<lambda>a. False)"
  "debugger_break console = False"
  "exceptions console = []"
  "panic_alerts console = []"
  by (simp_all add: console_def)

lemma console_translate_bat:
  "TranslateAddress NoException 0x80001000 console =
     (\<lparr>address = 0x1000, result = BAT_TRANSLATED, wi = False\<rparr>, console)"
  by (simp add: translate_defs console_simps)

lemma console_translate_fault:
  "TranslateAddress NoException 0x7FFFFFFC console =
     (\<lparr>address = 0, result = PAGE_FAULT, wi = False\<rparr>, console)"
  by (simp add: translate_defs console_simps)

lemma console_is_ram:
  "HostIsRAMAddress machine_ops console 0x80001000 Effective"
  "HostIsRAMAddress machine_ops console 0x80001000 Virtual"
  "HostIsRAMAddress machine_ops console 0x1000 Physical"
  "\<not> HostIsRAMAddress machine_ops console 0x7FFFFFFC Effective"
  "\<not> HostIsRAMAddress machine_ops console 0x7FFFFFFC Virtual"
  "\<not> HostIsRAMAddress machine_ops console 0x0C000000 Physical"
  "\<not> HostIsRAMAddress machine_ops console 0x02000000 Physical"
  by (simp_all add: ops_simps console_translate_bat console_translate_fault Success_cases
      console_simps)

lemma console_read:
  "machine_ReadFromHardware NoException 4 False 0x80001000 console = (0, console)"
  "machine_ReadFromHardware NoException 4 True 0x1000 console = (0, console)"
  by (simp_all add: access_defs console_translate_bat Success_cases console_simps)

lemma console_write_fault:
  "machine_WriteToHardware NoException False 0x7FFFFFFC d 4 console = console"
  by (simp add: access_defs console_translate_fault Success_cases console_simps)

lemma console_write_bat:
  "machine_WriteToHardware NoException False 0x80000000 d 4 console =
     console\<lparr>ram := (ram console)(0 \<mapsto> ucast (drop_bit 24 d), 1 \<mapsto> ucast (drop_bit 16 d),
        2 \<mapsto> ucast (drop_bit 8 d), 3 \<mapsto> ucast d)\<rparr>"
  by (simp add: access_defs translate_defs console_simps)

lemma console_try_read:
  "(HostTryRead machine_ops 0x80001000 Effective console :: u32 ReadResult option \<times> Machine) =
     (Some \<lparr>ReadResult.translated = True, rvalue = 0\<rparr>, console)"
  "(HostTryRead machine_ops 0x80001000 Virtual console :: u32 ReadResult option \<times> Machine) =
     (Some \<lparr>ReadResult.translated = True, rvalue = 0\<rparr>, console)"
  "(HostTryRead machine_ops 0x1000 Physical console :: u32 ReadResult option \<times> Machine) =
     (Some \<lparr>ReadResult.translated = False, rvalue = 0\<rparr>, console)"
  using console_is_ram
  by (simp_all add: HostTryRead_def sizeof_def machine_ops_simps console_read console_simps)

lemma console_try_write:
  "fst (HostTryWrite machine_ops 4 (0xDEADBEEF :: u32) 0x80001000 Effective console) =
     Some \<lparr>WriteResult.translated = True\<rparr>"
  "fst (HostTryWrite machine_ops 4 (0xDEADBEEF :: u32) 0x80001000 Virtual console) =
     Some \<lparr>WriteResult.translated = True\<rparr>"
  "fst (HostTryWrite machine_ops 4 (0xDEADBEEF :: u32) 0x1000 Physical console) =
     Some \<lparr>WriteResult.translated = False\<rparr>"
  using console_is_ram
  by (simp_all add: HostTryWrite_def Let_def machine_ops_simps access_defs console_translate_bat
      Success_cases console_simps)

lemma console_try_write64:
  "fst (HostTryWrite_Size64 machine_ops 0x1122334455667788 0x80001000 Virtual console) =
     Some \<lparr>WriteResult.translated = True\<rparr>"
  "fst (HostTryWrite_Size64 machine_ops 0x1122334455667788 0x80001000 Effective console) =
     Some \<lparr>WriteResult.translated = True\<rparr>"
  "map (ram (snd (HostTryWrite_Size64 machine_ops 0x1122334455667788 0x80001000 Effective console)))
     [0x1000, 0x1001, 0x1002, 0x1003, 0x1004, 0x1005, 0x1006, 0x1007] =
     [Some 0x11, Some 0x22, Some 0x33, Some 0x44, Some 0x55, Some 0x66, Some 0x77, Some 0x88]"
  by (simp_all add: HostTryWrite_Size64_def HostTryWrite_def Let_def ops_simps access_defs
      translate_defs console_simps)

section \<open>The translator and the probing modes\<close>

text \<open>
  What the modelled translator and hardware access engine change in the machine, by
  mode.
\<close>

lemma touch_pte_probe: "IsNoExceptionFlag flag \<Longrightarrow> touch_pte flag p = p"
  by (cases flag) simp_all

lemma touch_pte_keeps:
  "pte_valid (touch_pte flag p) = pte_valid p" "pte_API (touch_pte flag p) = pte_API p"
  "pte_RPN (touch_pte flag p) = pte_RPN p" "pte_WI (touch_pte flag p) = pte_WI p"
  by (cases flag; simp)+

lemma touch_pte_bits:
  "\<not> IsNoExceptionFlag flag \<Longrightarrow> pte_R (touch_pte flag p)"
  "pte_C (touch_pte Write p)"
  by (cases flag; simp)+

lemma scan_pteg_probe:
  "IsNoExceptionFlag flag \<Longrightarrow> scan_pteg flag api ps = Some (p, ps') \<Longrightarrow> ps' = ps"
  by (induction ps arbitrary: ps')
    (auto simp: touch_pte_probe split: if_splits option.splits)

lemma scan_pteg_touched:
  "scan_pteg flag api ps = Some (p, ps') \<Longrightarrow>
   scan_pteg NoException api ps' = Some (touch_pte flag p, ps')"
  by (induction ps arbitrary: ps')
    (auto simp: touch_pte_keeps split: if_splits option.splits)

lemma TranslatePageAddress_probe:
  "IsNoExceptionFlag flag \<Longrightarrow> snd (TranslatePageAddress flag ea s) = s"
  by (simp add: TranslatePageAddress_def Let_def split: option.splits)

lemma TranslateAddress_probe:
  "IsNoExceptionFlag flag \<Longrightarrow> snd (TranslateAddress flag a s) = s"
  by (simp add: TranslateAddress_def Let_def TranslatePageAddress_probe)

lemma TranslatePageAddress_exceptions:
  "exceptions (snd (TranslatePageAddress flag ea s)) = exceptions s"
  by (simp add: TranslatePageAddress_def Let_def split: option.splits)

lemma TranslateAddress_exceptions:
  "exceptions (snd (TranslateAddress flag a s)) = exceptions s"
  by (simp add: TranslateAddress_def Let_def TranslatePageAddress_exceptions)

lemma raise_fault_probe: "IsNoExceptionFlag flag \<Longrightarrow> raise_fault flag a w s = s"
  by (cases flag) simp_all

lemma resolve_address_probe:
  "IsNoExceptionFlag flag \<Longrightarrow> snd (resolve_address flag nt w a s) = s"
  using TranslateAddress_probe [of flag a s]
  by (auto simp: resolve_address_def raise_fault_probe split: prod.splits)

lemma ReadFromHardware_probe:
  "IsNoExceptionFlag flag \<Longrightarrow>
   exceptions (snd (machine_ReadFromHardware flag n nt a s)) = exceptions s \<and>
   page_table (snd (machine_ReadFromHardware flag n nt a s)) = page_table s"
  using resolve_address_probe [of flag nt False a s]
  by (auto simp: machine_ReadFromHardware_def split: prod.splits option.splits)

lemma probe_failure:
  assumes "IsNoExceptionFlag flag" and "\<not> nt"
    and "if IsOpcodeFlag flag then IR s else DR s"
    and "\<not> Success (fst (TranslateAddress flag a s))"
  shows "machine_ReadFromHardware flag n nt a s = (0, s) \<and>
         machine_WriteToHardware flag nt a d k s = s"
proof -
  obtain r s1 where t: "TranslateAddress flag a s = (r, s1)"
    by (cases "TranslateAddress flag a s")
  from t assms(1) have s1: "s1 = s"
    using TranslateAddress_probe [of flag a s] by simp
  from t assms(4) have f: "\<not> Success r" by simp
  from assms(2,3) t f s1 have
    "resolve_address flag nt w a s = (None, s)" for w
    by (simp add: resolve_address_def raise_fault_probe [OF assms(1)])
  then show ?thesis
    by (simp add: machine_ReadFromHardware_def machine_WriteToHardware_def)
qed

lemma scan_pteg_None_iff:
  "(scan_pteg flag api ps = None) = (\<not> (\<exists>p\<in>set ps. pte_valid p \<and> pte_API p = api))"
  by (induction ps) (auto split: option.splits)

lemma scan_pteg_entry:
  "map_option fst (scan_pteg flag api ps) = map_option fst (scan_pteg flag' api ps)"
  by (induction ps) (auto split: option.splits)

lemma TranslatePageAddress_result_flag:
  "fst (TranslatePageAddress flag ea s) = fst (TranslatePageAddress flag' ea s)"
proof -
  let ?ps = "page_table s (pteg_hash s (vsid (segment_registers s (SR ea))) (API ea))"
  have "map_option fst (scan_pteg flag (API ea) ?ps) =
      map_option fst (scan_pteg flag' (API ea) ?ps)"
    by (rule scan_pteg_entry)
  then show ?thesis
    by (cases "scan_pteg flag (API ea) ?ps"; cases "scan_pteg flag' (API ea) ?ps")
      (auto simp: TranslatePageAddress_def Let_def)
qed

lemma TranslateAddress_result_flag:
  "IsOpcodeFlag flag' = IsOpcodeFlag flag \<Longrightarrow>
   fst (TranslateAddress flag' a s) = fst (TranslateAddress flag a s)"
  using TranslatePageAddress_result_flag [of flag' "mk_EffectiveAddress a" s flag]
  by (simp add: TranslateAddress_def Let_def)

lemma TranslateAddress_kind:
  "result (fst (TranslateAddress flag a s)) =
     (if bat_entry (if IsOpcodeFlag flag then m_ibat_table s else m_dbat_table s) a
           AND BAT_MAPPED_BIT \<noteq> 0
      then BAT_TRANSLATED
      else if direct_store (segment_registers s (SR (mk_EffectiveAddress a)))
      then DIRECT_STORE_SEGMENT
      else if \<exists>p\<in>set (page_table s
                  (pteg_hash s (vsid (segment_registers s (SR (mk_EffectiveAddress a))))
                     (API (mk_EffectiveAddress a)))).
                pte_valid p \<and> pte_API p = API (mk_EffectiveAddress a)
      then PAGE_TABLE_TRANSLATED
      else PAGE_FAULT)"
proof -
  let ?ea = "mk_EffectiveAddress a"
  let ?ps = "page_table s (pteg_hash s (vsid (segment_registers s (SR ?ea))) (API ?ea))"
  have "(scan_pteg flag (API ?ea) ?ps = None) =
      (\<not> (\<exists>p\<in>set ?ps. pte_valid p \<and> pte_API p = API ?ea))"
    by (rule scan_pteg_None_iff)
  then show ?thesis
    by (cases "scan_pteg flag (API ?ea) ?ps")
      (auto simp: TranslateAddress_def TranslatePageAddress_def Let_def
        mk_TranslateAddressResult_def)
qed

lemma WriteToHardware_probe:
  "IsNoExceptionFlag flag \<Longrightarrow>
   exceptions (machine_WriteToHardware flag nt a d n s) = exceptions s \<and>
   page_table (machine_WriteToHardware flag nt a d n s) = page_table s"
  using resolve_address_probe [of flag nt True a s]
  by (auto simp: machine_WriteToHardware_def split: prod.splits option.splits)

lemma page_walk_touched:
  assumes "\<not> IsNoExceptionFlag flag"
    and "result (fst (TranslateAddress flag a s)) = PAGE_TABLE_TRANSLATED"
  shows "\<exists>q ps. scan_pteg NoException (API (mk_EffectiveAddress a))
           (page_table (snd (TranslateAddress flag a s))
              (pteg_hash s (vsid (segment_registers s (SR (mk_EffectiveAddress a))))
                 (API (mk_EffectiveAddress a)))) = Some (q, ps) \<and>
         pte_R q \<and> (flag = Write \<longrightarrow> pte_C q)"
proof -
  let ?ea = "mk_EffectiveAddress a"
  let ?sr = "segment_registers s (SR ?ea)"
  let ?g = "pteg_hash s (vsid ?sr) (API ?ea)"
  from assms(2) have walk: "TranslateAddress flag a s = TranslatePageAddress flag ?ea s"
    by (auto simp: TranslateAddress_def Let_def mk_TranslateAddressResult_def split: if_splits)
  from assms(2) have nds: "\<not> direct_store ?sr"
    unfolding walk
    by (auto simp: TranslatePageAddress_def Let_def mk_TranslateAddressResult_def)
  from assms(2) nds obtain p ps' where
    found: "scan_pteg flag (API ?ea) (page_table s ?g) = Some (p, ps')"
    unfolding walk
    by (auto simp: TranslatePageAddress_def Let_def mk_TranslateAddressResult_def
        split: option.splits)
  from found nds assms(1) have
    "page_table (snd (TranslateAddress flag a s)) ?g = ps'"
    unfolding walk by (simp add: TranslatePageAddress_def Let_def)
  moreover from found have
    "scan_pteg NoException (API ?ea) ps' = Some (touch_pte flag p, ps')"
    by (rule scan_pteg_touched)
  moreover have "pte_R (touch_pte flag p)"
    using assms(1) by (rule touch_pte_bits)
  moreover have "flag = Write \<longrightarrow> pte_C (touch_pte flag p)"
    by (simp add: touch_pte_bits)
  ultimately show ?thesis
    by simp
qed

lemma fault_raised:
  assumes "\<not> IsNoExceptionFlag flag" and "\<not> nt"
    and "if IsOpcodeFlag flag then IR s else DR s"
    and "\<not> Success (fst (TranslateAddress flag a s))"
  shows "exceptions (snd (machine_ReadFromHardware flag n nt a s)) =
           exceptions s @ [if IsOpcodeFlag flag then ISI a else DSI a False] \<and>
         exceptions (machine_WriteToHardware flag nt a d k s) =
           exceptions s @ [if IsOpcodeFlag flag then ISI a else DSI a True]"
proof -
  obtain r s1 where t: "TranslateAddress flag a s = (r, s1)"
    by (cases "TranslateAddress flag a s")
  from t have e: "exceptions s1 = exceptions s"
    using TranslateAddress_exceptions [of flag a s] by simp
  from t assms(4) have f: "\<not> Success r" by simp
  have rf: "exceptions (raise_fault flag a w s1) =
      exceptions s @ [if IsOpcodeFlag flag then ISI a else DSI a w]" for w
    using assms(1) e by (cases flag) simp_all
  from assms(2,3) t f have
    "resolve_address flag nt w a s = (None, raise_fault flag a w s1)" for w
    by (simp add: resolve_address_def)
  then show ?thesis
    using rf by (simp add: machine_ReadFromHardware_def machine_WriteToHardware_def)
qed

lemma console_translate_read_fault:
  "TranslateAddress Read 0x7FFFFFFC console =
     (\<lparr>address = 0, result = PAGE_FAULT, wi = False\<rparr>, console)"
  by (simp add: translate_defs console_simps)

lemma console_translate_write_walk:
  "result (fst (TranslateAddress Write 0x40000123 console)) = PAGE_TABLE_TRANSLATED"
  "address (fst (TranslateAddress Write 0x40000123 console)) = 0x20123"
  "page_table (snd (TranslateAddress Write 0x40000123 console)) 4 =
     [\<lparr>pte_valid = True, pte_API = 0, pte_RPN = 0x20, pte_R = True, pte_C = True,
       pte_WI = False\<rparr>]"
  "page_table (snd (TranslateAddress NoException 0x40000123 console)) 4 =
     [\<lparr>pte_valid = True, pte_API = 0, pte_RPN = 0x20, pte_R = False, pte_C = False,
       pte_WI = False\<rparr>]"
  by (simp_all add: translate_defs console_simps)

section \<open>Bytes in RAM\<close>

text \<open>
  Storing bytes and loading them again, the big-endian byte order, and the physical
  write followed by the physical read on the modelled machine.
\<close>

lemma those_map_Some: "those (map Some xs) = Some xs"
  by (induction xs) simp_all

lemma those_eq_None_iff: "(those xs = None) = (None \<in> set xs)"
  by (induction xs) (auto split: option.splits)

lemma store_bytes_apply:
  "length bs \<le> 2 ^ 32 \<Longrightarrow>
   store_bytes m a bs x =
     (if unat (x - a) < length bs then Some (bs ! unat (x - a)) else m x)"
proof (induction bs arbitrary: m a)
  case Nil
  then show ?case by simp
next
  case (Cons b bs)
  from Cons.prems have len: "length bs < 2 ^ 32" by simp
  then have IH: "store_bytes (m(a \<mapsto> b)) (a + 1) bs x =
      (if unat (x - (a + 1)) < length bs then Some (bs ! unat (x - (a + 1)))
       else (m(a \<mapsto> b)) x)"
    by (intro Cons.IH) simp
  show ?case
  proof (cases "x = a")
    case True
    have "unat (a - (a + 1)) = 2 ^ 32 - 1"
    proof -
      have "a - (a + 1) = (- 1 :: u32)" by simp
      then show ?thesis by (simp add: unsigned_minus_1_eq_mask mask_eq_exp_minus_1)
    qed
    with len have "\<not> unat (a - (a + 1)) < length bs" by simp
    with True IH show ?thesis by simp
  next
    case False
    then have nz: "x - a \<noteq> 0" by simp
    have "unat (x - (a + 1)) = unat ((x - a) - 1)"
      by (simp add: diff_diff_eq)
    also have "\<dots> = unat (x - a) - 1"
      by (rule unat_minus_one [OF nz])
    finally have "unat (x - (a + 1)) = unat (x - a) - 1" .
    moreover from nz have "0 < unat (x - a)"
      by (simp add: unat_gt_0)
    ultimately obtain k where k: "unat (x - a) = Suc k" "unat (x - (a + 1)) = k"
      by (cases "unat (x - a)") simp_all
    from False k IH show ?thesis by simp
  qed
qed

lemma unat_of_nat_offset:
  "i < 2 ^ 32 \<Longrightarrow> unat ((a :: u32) + of_nat i - a) = i"
  by (simp add: unat_of_nat take_bit_nat_eq_self)

lemma load_store_bytes:
  assumes "length bs \<le> 2 ^ 32"
  shows "load_bytes (store_bytes m a bs) a (length bs) = Some bs"
proof -
  have "map (\<lambda>i. store_bytes m a bs (a + of_nat i)) [0..<length bs] =
      map (\<lambda>i. Some (bs ! i)) [0..<length bs]"
  proof (rule map_cong [OF refl])
    fix i assume "i \<in> set [0..<length bs]"
    then have i: "i < length bs" by simp
    with assms have "i < 2 ^ 32" by simp
    then have "unat (a + of_nat i - a) = i" by (rule unat_of_nat_offset)
    with i show "store_bytes m a bs (a + of_nat i) = Some (bs ! i)"
      by (simp add: store_bytes_apply [OF assms])
  qed
  also have "\<dots> = map Some (map (\<lambda>i. bs ! i) [0..<length bs])"
    by simp
  also have "map (\<lambda>i. bs ! i) [0..<length bs] = bs"
    by (rule map_nth)
  finally show ?thesis
    by (simp add: load_bytes_def those_map_Some)
qed

lemma store_bytes_append:
  "store_bytes m a (xs @ ys) = store_bytes (store_bytes m a xs) (a + of_nat (length xs)) ys"
  by (induction xs arbitrary: m a) (simp_all add: add.assoc)

lemma store_bytes_dom:
  "length bs \<le> 2 ^ 32 \<Longrightarrow> m x \<noteq> None \<Longrightarrow> store_bytes m a bs x \<noteq> None"
  by (simp add: store_bytes_apply)

lemma None_in_cells:
  "(None \<in> set (map (\<lambda>i. (m :: u32 \<rightharpoonup> u8) (a + of_nat i)) [0..<n])) =
     (\<exists>i<n. m (a + of_nat i) = None)"
proof
  assume "None \<in> set (map (\<lambda>i. m (a + of_nat i)) [0..<n])"
  then obtain i where "i \<in> set [0..<n]" "m (a + of_nat i) = None"
    by (auto simp: image_iff)
  then show "\<exists>i<n. m (a + of_nat i) = None"
    by auto
next
  assume "\<exists>i<n. m (a + of_nat i) = None"
  then obtain i where "i < n" "m (a + of_nat i) = None" by blast
  then have "i \<in> set [0..<n]" "None = m (a + of_nat i)" by simp_all
  then show "None \<in> set (map (\<lambda>i. m (a + of_nat i)) [0..<n])"
    unfolding set_map by (rule image_eqI [rotated])
qed

lemma load_bytes_None_iff:
  "(load_bytes m a n = None) = (\<exists>i<n. m (a + of_nat i) = None)"
  by (simp only: load_bytes_def those_eq_None_iff None_in_cells)

lemma load_bytes_after_store:
  assumes "length bs \<le> 2 ^ 32" and "load_bytes m b n \<noteq> None"
  shows "load_bytes (store_bytes m a bs) b n \<noteq> None"
proof
  assume "load_bytes (store_bytes m a bs) b n = None"
  then obtain i where i: "i < n" "store_bytes m a bs (b + of_nat i) = None"
    unfolding load_bytes_None_iff by blast
  from assms(2) i(1) have "m (b + of_nat i) \<noteq> None"
    unfolding load_bytes_None_iff by auto
  with assms(1) have "store_bytes m a bs (b + of_nat i) \<noteq> None"
    by (rule store_bytes_dom)
  with i(2) show False by contradiction
qed

lemma length_to_be: "length (to_be n v) = n"
  by (simp add: to_be_def)

lemma bit_foldl_be:
  "bit (foldl (\<lambda>acc b. push_bit 8 acc OR ucast b) (acc :: u64) (bs :: u8 list)) k =
     (k < 64 \<and>
      (if k < 8 * length bs then bit (bs ! (length bs - 1 - k div 8)) (k mod 8)
       else bit acc (k - 8 * length bs)))"
proof (induction bs arbitrary: acc)
  case Nil
  show ?case
    using bit_imp_le_length [of acc k] by auto
next
  case (Cons b bs)
  let ?acc = "push_bit 8 acc OR ucast b :: u64"
  have step: "bit ?acc j = (j < 64 \<and> (if j < 8 then bit b j else bit acc (j - 8)))" for j
    using bit_imp_le_length [of b j] bit_imp_le_length [of acc "j - 8"]
    by (auto simp: bit_or_iff bit_push_bit_iff bit_ucast_iff)
  have IH: "bit (foldl (\<lambda>acc b. push_bit 8 acc OR ucast b) ?acc bs) k =
     (k < 64 \<and>
      (if k < 8 * length bs then bit (bs ! (length bs - 1 - k div 8)) (k mod 8)
       else bit ?acc (k - 8 * length bs)))"
    by (rule Cons.IH)
  consider "k < 8 * length bs" | "8 * length bs \<le> k" "k < 8 * length bs + 8"
    | "8 * length bs + 8 \<le> k"
    by linarith
  then show ?case
  proof cases
    case 1
    then have d: "k div 8 < length bs" by simp
    then have "length (b # bs) - 1 - k div 8 = Suc (length bs - 1 - k div 8)"
      by simp
    then have "(b # bs) ! (length (b # bs) - 1 - k div 8) = bs ! (length bs - 1 - k div 8)"
      by simp
    with 1 IH show ?thesis by simp
  next
    case 2
    then have d: "k div 8 = length bs" by simp
    from 2 have m: "k - 8 * length bs = k mod 8"
      using d by (metis add.commute add_diff_cancel_left' mult.commute mod_div_mult_eq
          mult_div_mod_eq)
    from 2 have "\<not> k < 8 * length bs" by simp
    with IH have "bit (foldl (\<lambda>acc b. push_bit 8 acc OR ucast b) ?acc bs) k =
        (k < 64 \<and> bit ?acc (k mod 8))"
      by (simp add: m)
    also have "\<dots> = (k < 64 \<and> bit b (k mod 8))"
    proof -
      have "k mod 8 < 8" by simp
      then have "k mod 8 < 64" by linarith
      then show ?thesis by (simp add: step)
    qed
    finally show ?thesis
      using 2 d by simp
  next
    case 3
    then have nlt: "\<not> k < 8 * length bs" "\<not> k - 8 * length bs < 8"
      "\<not> k < 8 * length (b # bs)" by simp_all
    have e: "k - 8 * length bs - 8 = k - 8 * length (b # bs)" by simp
    from IH nlt(1) have "bit (foldl (\<lambda>acc b. push_bit 8 acc OR ucast b) ?acc bs) k =
        (k < 64 \<and> bit ?acc (k - 8 * length bs))"
      by simp
    also have "\<dots> = (k < 64 \<and> bit acc (k - 8 * length (b # bs)))"
    proof -
      have "bit ?acc (k - 8 * length bs) =
          (k - 8 * length bs < 64 \<and> bit acc (k - 8 * length bs - 8))"
        using nlt(2) by (simp only: step if_False)
      then show ?thesis
        unfolding e by auto
    qed
    finally show ?thesis
      using nlt(3) by simp
  qed
qed

lemma nth_to_be:
  "i < n \<Longrightarrow> to_be n d ! i = ucast (drop_bit (8 * (n - 1 - i)) d)"
  by (simp add: to_be_def)

lemma bit_foldl_to_be:
  "bit (foldl (\<lambda>acc b. push_bit 8 acc OR ucast b) (acc :: u64) (to_be n d)) k =
     (k < 64 \<and> (if k < 8 * n then bit d k else bit acc (k - 8 * n)))"
proof (cases "k < 8 * n")
  case True
  then have i: "n - 1 - k div 8 < n" "n - 1 - (n - 1 - k div 8) = k div 8"
    by auto
  have "to_be n d ! (n - 1 - k div 8) = ucast (drop_bit (8 * (n - 1 - (n - 1 - k div 8))) d)"
    by (rule nth_to_be [OF i(1)])
  then have "to_be n d ! (n - 1 - k div 8) = ucast (drop_bit (8 * (k div 8)) d)"
    by (simp only: i(2))
  then have "bit (to_be n d ! (n - 1 - k div 8)) (k mod 8) = bit d k"
    by (simp add: bit_ucast_iff bit_drop_bit_eq)
  moreover have "length (to_be n d) = n"
    by (simp add: to_be_def)
  ultimately show ?thesis
    using True bit_imp_le_length [of d k] by (auto simp: bit_foldl_be)
next
  case False
  moreover have "length (to_be n d) = n"
    by (simp add: to_be_def)
  ultimately show ?thesis
    by (simp add: bit_foldl_be)
qed

lemma from_be_append:
  "from_be (xs @ ys) = foldl (\<lambda>acc b. push_bit 8 acc OR ucast b) (from_be xs) ys"
  by (simp add: from_be_def)

lemma bit_from_be_to_be: "bit (from_be (to_be n d)) k = (k < 8 * n \<and> bit d k)"
  using bit_imp_le_length [of d k] by (auto simp: from_be_def bit_foldl_to_be)

lemma from_be_to_be_ucast:
  fixes v :: "'a::len word"
  assumes "LENGTH('a) = 8 * n" and "n \<le> 4"
  shows "(ucast (from_be (to_be n (ucast v))) :: 'a word) = v"
proof (rule bit_eqI)
  fix k
  assume "possible_bit TYPE('a word) k"
  then have k: "k < LENGTH('a)" by (simp add: possible_bit_def)
  with assms have "k < 32" "k < 8 * n" by simp_all
  with k show "bit (ucast (from_be (to_be n (ucast v))) :: 'a word) k = bit v k"
    by (simp add: bit_ucast_iff bit_from_be_to_be)
qed

lemma from_be_hi_lo:
  "from_be (to_be 4 (ucast (drop_bit 32 (v :: u64))) @ to_be 4 (ucast v)) = v"
proof (rule bit_eqI)
  fix k
  assume "possible_bit TYPE(u64) k"
  then have k: "k < 64" by (simp add: possible_bit_def)
  show "bit (from_be (to_be 4 (ucast (drop_bit 32 v)) @ to_be 4 (ucast v))) k = bit v k"
  proof (cases "k < 32")
    case True
    then show ?thesis
      using k by (simp add: from_be_append bit_foldl_to_be bit_ucast_iff)
  next
    case False
    then have "32 + (k - 32) = k" by simp
    with False show ?thesis
      using k by (simp add: from_be_append bit_foldl_to_be bit_from_be_to_be bit_ucast_iff
          bit_drop_bit_eq)
  qed
qed

lemma physical_write:
  assumes "\<not> IsMMIOAddress s a" and "load_bytes (ram s) a (unat k) \<noteq> None"
  shows "machine_WriteToHardware NoException True a d k s =
           s\<lparr>ram := store_bytes (ram s) a (to_be (unat k) d)\<rparr>"
  using assms by (auto simp: machine_WriteToHardware_def resolve_address_def)

lemma physical_read:
  assumes "\<not> IsMMIOAddress s a" and "load_bytes (ram s) a n = Some bs"
  shows "machine_ReadFromHardware NoException n True a s = (from_be bs, s)"
  using assms by (simp add: machine_ReadFromHardware_def resolve_address_def)

lemma physical_is_ram:
  "HostIsRAMAddress machine_ops s a Physical = (\<not> IsMMIOAddress s a \<and> ram s a \<noteq> None)"
  by (simp add: ops_simps)

lemma round_trip_small:
  fixes v :: "'a::len word"
  assumes len: "LENGTH('a) = 8 * k" and k: "k \<le> 4"
    and isram: "HostIsRAMAddress machine_ops s a Physical"
    and bytes: "load_bytes (ram s) a k \<noteq> None"
  shows "fst (HostTryWrite machine_ops (of_nat k) v a Physical s) =
           Some \<lparr>WriteResult.translated = False\<rparr> \<and>
         fst (HostTryRead machine_ops a Physical
                (snd (HostTryWrite machine_ops (of_nat k) v a Physical s))) =
           Some \<lparr>ReadResult.translated = False, rvalue = v\<rparr>"
proof -
  let ?bs = "to_be k (ucast v)"
  let ?s' = "s\<lparr>ram := store_bytes (ram s) a ?bs\<rparr>"
  from k have uk: "unat (of_nat k :: u32) = k"
    by (simp add: unat_of_nat take_bit_nat_eq_self)
  from isram have nm: "\<not> IsMMIOAddress s a" and ra: "ram s a \<noteq> None"
    by (simp_all add: physical_is_ram)
  have lbs: "length ?bs \<le> 2 ^ 32"
    using k by (simp add: length_to_be)
  have w: "machine_WriteToHardware NoException True a (ucast v) (of_nat k) s = ?s'"
    using nm bytes by (simp add: physical_write uk)
  have tw: "HostTryWrite machine_ops (of_nat k) v a Physical s =
      (Some \<lparr>WriteResult.translated = False\<rparr>, ?s')"
    using isram by (simp add: HostTryWrite_def Let_def machine_ops_simps w)
  have isram': "HostIsRAMAddress machine_ops ?s' a Physical"
    using nm store_bytes_dom [where m = "ram s" and x = a and a = a, OF lbs ra]
    by (simp add: physical_is_ram)
  have "load_bytes (ram ?s') a (length ?bs) = Some ?bs"
    using load_store_bytes [OF lbs, of "ram s" a] by simp
  then have lb: "load_bytes (ram ?s') a k = Some ?bs"
    by (simp add: length_to_be)
  have sz: "sizeof TYPE('a) = k"
    by (simp add: sizeof_def len)
  have r: "machine_ReadFromHardware NoException k True a ?s' = (from_be ?bs, ?s')"
    using nm lb by (simp add: physical_read)
  have rb: "(ucast (from_be ?bs) :: 'a word) = v"
    using len k by (rule from_be_to_be_ucast)
  have tr: "fst (HostTryRead machine_ops a Physical ?s') =
      Some \<lparr>ReadResult.translated = False, rvalue = v\<rparr>"
    using isram' by (simp add: HostTryRead_def machine_ops_simps sz r rb)
  from tw tr show ?thesis
    by simp
qed

lemma round_trip_64:
  fixes v :: u64
  assumes isram: "HostIsRAMAddress machine_ops s a Physical"
    and isram4: "HostIsRAMAddress machine_ops s (a + 4) Physical"
    and bytes: "load_bytes (ram s) a 8 \<noteq> None"
  shows "fst (HostTryWrite_Size64 machine_ops v a Physical s) =
           Some \<lparr>WriteResult.translated = False\<rparr> \<and>
         fst (HostTryRead machine_ops a Physical
                (snd (HostTryWrite_Size64 machine_ops v a Physical s))) =
           Some \<lparr>ReadResult.translated = False, rvalue = v\<rparr>"
proof -
  let ?hi = "to_be 4 (ucast (drop_bit 32 v))"
  let ?lo = "to_be 4 (ucast v)"
  let ?s1 = "s\<lparr>ram := store_bytes (ram s) a ?hi\<rparr>"
  let ?s2 = "s\<lparr>ram := store_bytes (ram s) a (?hi @ ?lo)\<rparr>"
  from isram have nm: "\<not> IsMMIOAddress s a" and ra: "ram s a \<noteq> None"
    by (simp_all add: physical_is_ram)
  from isram4 have nm4: "\<not> IsMMIOAddress s (a + 4)" and ra4: "ram s (a + 4) \<noteq> None"
    by (simp_all add: physical_is_ram)
  have cell: "ram s (a + of_nat i) \<noteq> None" if "i < 8" for i
    using bytes that unfolding load_bytes_None_iff by auto
  have b4: "load_bytes (ram s) a 4 \<noteq> None"
    unfolding load_bytes_None_iff using cell by auto
  have b4': "load_bytes (ram s) (a + 4) 4 \<noteq> None"
  proof -
    have "ram s (a + 4 + of_nat i) \<noteq> None" if "i < 4" for i
      using cell [of "4 + i"] that by (simp add: add.assoc)
    then show ?thesis
      unfolding load_bytes_None_iff by auto
  qed
  have lhi: "length ?hi \<le> 2 ^ 32" and lall: "length (?hi @ ?lo) \<le> 2 ^ 32"
    by (simp_all add: length_to_be)
  have w1: "machine_WriteToHardware NoException True a (ucast (drop_bit 32 v)) 4 s = ?s1"
    using nm b4 by (simp add: physical_write)
  have first: "HostTryWrite machine_ops 4 (ucast (drop_bit 32 v) :: u32) a Physical s =
      (Some \<lparr>WriteResult.translated = False\<rparr>, ?s1)"
    using isram by (simp add: HostTryWrite_def Let_def machine_ops_simps w1)
  have isram1: "HostIsRAMAddress machine_ops ?s1 (a + 4) Physical"
    using nm4 store_bytes_dom [where m = "ram s" and x = "a + 4" and a = a, OF lhi ra4]
    by (simp add: physical_is_ram)
  have "load_bytes (ram ?s1) (a + 4) 4 \<noteq> None"
    using load_bytes_after_store [OF lhi b4', of a] by simp
  then have "machine_WriteToHardware NoException True (a + 4) (ucast v) 4 ?s1 =
      ?s1\<lparr>ram := store_bytes (ram ?s1) (a + 4) ?lo\<rparr>"
    using nm4 by (simp add: physical_write)
  also have "\<dots> = ?s2"
    by (simp add: store_bytes_append length_to_be)
  finally have w2: "machine_WriteToHardware NoException True (a + 4) (ucast v) 4 ?s1 = ?s2" .
  have second: "HostTryWrite machine_ops 4 (ucast v :: u32) (a + 4) Physical ?s1 =
      (Some \<lparr>WriteResult.translated = False\<rparr>, ?s2)"
    using isram1 by (simp add: HostTryWrite_def Let_def machine_ops_simps w2)
  have tw: "HostTryWrite_Size64 machine_ops v a Physical s =
      (Some \<lparr>WriteResult.translated = False\<rparr>, ?s2)"
    by (simp add: HostTryWrite_Size64_def first second)
  have isram2: "HostIsRAMAddress machine_ops ?s2 a Physical"
    using nm store_bytes_dom [where m = "ram s" and x = a and a = a, OF lall ra]
    by (simp add: physical_is_ram)
  have "load_bytes (ram ?s2) a (length (?hi @ ?lo)) = Some (?hi @ ?lo)"
    using load_store_bytes [OF lall, of "ram s" a] by simp
  then have lb: "load_bytes (ram ?s2) a 8 = Some (?hi @ ?lo)"
    by (simp add: length_to_be)
  have r: "machine_ReadFromHardware NoException 8 True a ?s2 = (from_be (?hi @ ?lo), ?s2)"
    using nm lb by (simp add: physical_read)
  have sz: "sizeof TYPE(64) = 8"
    by (simp add: sizeof_def)
  have tr: "fst (HostTryRead machine_ops a Physical ?s2) =
      Some \<lparr>ReadResult.translated = False, rvalue = v\<rparr>"
    using isram2 by (simp add: HostTryRead_def machine_ops_simps sz r from_be_hi_lo)
  from tw tr show ?thesis
    by simp
qed

section \<open>The claims\<close>

subsection \<open>C1: the split 64-bit host write\<close>

text \<open>
  Claim C1 says that \<open>HostWrite\<close> and \<open>HostTryWrite\<close> perform a 64-bit write as two
  32-bit sub-writes and that, when the first sub-write fails, the second is not attempted
  and the overall result is absent. For \<open>HostWrite\<close> this fails. Counterexample to C1: on
  the example machine the translation of \<open>0x7FFFFFFC\<close> page-faults, so the first
  sub-write of \<open>HostWrite<u64>(0x1122334455667788, 0x7FFFFFFC)\<close> writes nothing, and the
  second sub-write is performed all the same: the byte at physical address 3 changes from
  \<open>0\<close> to \<open>0x88\<close>.
\<close>

theorem C1_counterexample:
  "\<not> Success (fst (TranslateAddress NoException 0x7FFFFFFC console)) \<and>
   WriteToHardware machine_ops NoException False 0x7FFFFFFC
     (ucast (drop_bit 32 (0x1122334455667788 :: u64))) 4 console = console \<and>
   ram console 3 = Some 0 \<and>
   ram (HostWrite_Size64 machine_ops 0x1122334455667788 0x7FFFFFFC console) 3 = Some 0x88"
  by (simp add: HostWrite_Size64_def machine_ops_simps console_write_fault console_write_bat
      console_translate_fault Success_cases console_simps)

text \<open>
  C1 as amended: \<open>HostTryWrite\<close> of a 64-bit value is two calls of \<open>HostTryWrite<u32>\<close>,
  the high word at the address and then the low word at the address plus 4. When the
  first call returns no value, the overall result is absent and the machine is left as
  it was, whatever the hardware operations are: the second call is not made and nothing
  is written. \<open>HostWrite\<close> of a 64-bit value has no result and always performs both
  32-bit writes, the second on the state the first leaves.
\<close>

theorem C1_split_write:
  fixes mmu :: "'s MMU_ops" and var :: u64
  shows
  "(fst (HostTryWrite mmu 4 (ucast (drop_bit 32 var) :: u32) addr space s) = None \<longrightarrow>
      HostTryWrite_Size64 mmu var addr space s = (None, s)) \<and>
   (fst (HostTryWrite mmu 4 (ucast (drop_bit 32 var) :: u32) addr space s) \<noteq> None \<longrightarrow>
      HostTryWrite_Size64 mmu var addr space s =
        HostTryWrite mmu 4 (ucast var :: u32) (addr + 4) space
          (snd (HostTryWrite mmu 4 (ucast (drop_bit 32 var) :: u32) addr space s))) \<and>
   HostWrite_Size64 mmu var addr s =
     HostWrite mmu 4 (ucast var :: u32) (addr + 4)
       (HostWrite mmu 4 (ucast (drop_bit 32 var) :: u32) addr s)"
proof -
  let ?first = "HostTryWrite mmu 4 (ucast (drop_bit 32 var) :: u32) addr space s"
  have a: "fst ?first = None \<longrightarrow> HostTryWrite_Size64 mmu var addr space s = (None, s)"
  proof
    assume "fst ?first = None"
    then have "?first = (None, s)" by (rule HostTryWrite_None)
    then show "HostTryWrite_Size64 mmu var addr space s = (None, s)"
      by (simp add: HostTryWrite_Size64_def)
  qed
  have b: "fst ?first \<noteq> None \<longrightarrow>
      HostTryWrite_Size64 mmu var addr space s =
        HostTryWrite mmu 4 (ucast var :: u32) (addr + 4) space (snd ?first)"
    by (cases ?first) (auto simp: HostTryWrite_Size64_def)
  have c: "HostWrite_Size64 mmu var addr s =
     HostWrite mmu 4 (ucast var :: u32) (addr + 4)
       (HostWrite mmu 4 (ucast (drop_bit 32 var) :: u32) addr s)"
    by (simp add: HostWrite_Size64_def HostWrite_def Let_def)
  from a b c show ?thesis by blast
qed

text \<open>
  Witness for C1: on the example machine the first sub-write at \<open>0x7FFFFFFC\<close> returns
  no value, and the one at \<open>0x80001000\<close> returns one.
\<close>

theorem C1_split_write_witness:
  "fst (HostTryWrite machine_ops 4 (ucast (drop_bit 32 (0x1122334455667788 :: u64)) :: u32)
          0x7FFFFFFC Effective console) = None \<and>
   HostTryWrite_Size64 machine_ops 0x1122334455667788 0x7FFFFFFC Effective console =
     (None, console) \<and>
   fst (HostTryWrite machine_ops 4 (ucast (drop_bit 32 (0x1122334455667788 :: u64)) :: u32)
          0x80001000 Effective console) \<noteq> None \<and>
   HostTryWrite_Size64 machine_ops 0x1122334455667788 0x80001000 Effective console =
     HostTryWrite machine_ops 4 (ucast (0x1122334455667788 :: u64) :: u32) (0x80001000 + 4)
       Effective
       (snd (HostTryWrite machine_ops 4
               (ucast (drop_bit 32 (0x1122334455667788 :: u64)) :: u32)
               0x80001000 Effective console))"
proof -
  have bad: "fst (HostTryWrite machine_ops 4
      (ucast (drop_bit 32 (0x1122334455667788 :: u64)) :: u32) 0x7FFFFFFC Effective console) = None"
    by (simp add: HostTryWrite_None_iff console_is_ram)
  have good: "fst (HostTryWrite machine_ops 4
      (ucast (drop_bit 32 (0x1122334455667788 :: u64)) :: u32) 0x80001000 Effective console) \<noteq> None"
    by (simp add: HostTryWrite_None_iff console_is_ram)
  show ?thesis
    using bad good
      C1_split_write [of machine_ops "0x1122334455667788" "0x7FFFFFFC" Effective console]
      C1_split_write [of machine_ops "0x1122334455667788" "0x80001000" Effective console]
    by blast
qed

subsection \<open>C2: the Virtual address space\<close>

text \<open>
  Claim C2: for every address, \<open>HostTryRead\<close> and \<open>HostTryWrite\<close> requested in
  \<open>Virtual\<close> space return an absent result when \<open>MSR.DR\<close> is off (and leave the machine
  as it was); when \<open>MSR.DR\<close> is on and the address resolves (\<open>HostIsRAMAddress\<close>), they
  return a present result with \<open>translated = true\<close>, the read with the value that
  \<open>ReadFromHardware\<close> gives. The 64-bit write does so when both of its sub-writes find
  \<open>MSR.DR\<close> on and their address resolving.
\<close>

theorem C2_virtual_space:
  fixes mmu :: "'s MMU_ops"
  shows
  "(\<not> msr_DR mmu s \<longrightarrow>
      (HostTryRead mmu addr Virtual s :: ('a::len word) ReadResult option \<times> 's) = (None, s) \<and>
      HostTryWrite mmu sz (var :: 'b::len word) addr Virtual s = (None, s) \<and>
      HostTryWrite_Size64 mmu var64 addr Virtual s = (None, s)) \<and>
   (msr_DR mmu s \<and> HostIsRAMAddress mmu s addr Virtual \<longrightarrow>
      fst (HostTryRead mmu addr Virtual s :: ('a::len word) ReadResult option \<times> 's) =
        Some \<lparr>ReadResult.translated = True,
              rvalue = ucast (fst (ReadFromHardware mmu NoException (sizeof TYPE('a)) False addr s))\<rparr> \<and>
      fst (HostTryWrite mmu sz var addr Virtual s) = Some \<lparr>WriteResult.translated = True\<rparr>) \<and>
   (msr_DR mmu s \<and> HostIsRAMAddress mmu s addr Virtual \<and>
    msr_DR mmu (WriteToHardware mmu NoException False addr (ucast (drop_bit 32 var64)) 4 s) \<and>
    HostIsRAMAddress mmu
      (WriteToHardware mmu NoException False addr (ucast (drop_bit 32 var64)) 4 s)
      (addr + 4) Virtual \<longrightarrow>
      fst (HostTryWrite_Size64 mmu var64 addr Virtual s) =
        Some \<lparr>WriteResult.translated = True\<rparr>)"
proof -
  have r: "\<not> msr_DR mmu s \<Longrightarrow>
      (HostTryRead mmu addr Virtual s :: ('a::len word) ReadResult option \<times> 's) = (None, s)"
    by (simp add: HostTryRead_def)
  have w: "\<not> msr_DR mmu s \<Longrightarrow> HostTryWrite mmu sz v addr Virtual s = (None, s)"
    for sz and v :: "'c::len word"
    by (simp add: HostTryWrite_def)
  have w64: "\<not> msr_DR mmu s \<Longrightarrow> HostTryWrite_Size64 mmu var64 addr Virtual s = (None, s)"
    by (simp add: HostTryWrite_Size64_def w)
  have p: "msr_DR mmu s \<and> HostIsRAMAddress mmu s addr Virtual \<Longrightarrow>
      fst (HostTryRead mmu addr Virtual s :: ('a::len word) ReadResult option \<times> 's) =
        Some \<lparr>ReadResult.translated = True,
              rvalue = ucast (fst (ReadFromHardware mmu NoException (sizeof TYPE('a)) False addr s))\<rparr> \<and>
      fst (HostTryWrite mmu sz var addr Virtual s) = Some \<lparr>WriteResult.translated = True\<rparr>"
    by (simp add: HostTryRead_def HostTryWrite_def Let_def split: prod.splits)
  have p64: "msr_DR mmu s \<and> HostIsRAMAddress mmu s addr Virtual \<and>
    msr_DR mmu (WriteToHardware mmu NoException False addr (ucast (drop_bit 32 var64)) 4 s) \<and>
    HostIsRAMAddress mmu
      (WriteToHardware mmu NoException False addr (ucast (drop_bit 32 var64)) 4 s)
      (addr + 4) Virtual \<Longrightarrow>
      fst (HostTryWrite_Size64 mmu var64 addr Virtual s) =
        Some \<lparr>WriteResult.translated = True\<rparr>"
    by (simp add: HostTryWrite_Size64_def HostTryWrite_def Let_def)
  from r w w64 p p64 show ?thesis by blast
qed

text \<open>
  Witness for C2: the example machine with \<open>MSR.DR\<close> switched off, and as it is, at the
  BAT-mapped address \<open>0x80001000\<close>.
\<close>

theorem C2_virtual_space_witness:
  "\<not> msr_DR machine_ops (console\<lparr>DR := False\<rparr>) \<and>
   ((HostTryRead machine_ops 0x80001000 Virtual (console\<lparr>DR := False\<rparr>)
      :: u32 ReadResult option \<times> Machine) = (None, console\<lparr>DR := False\<rparr>) \<and>
    HostTryWrite machine_ops 4 (0xDEADBEEF :: u32) 0x80001000 Virtual (console\<lparr>DR := False\<rparr>) =
      (None, console\<lparr>DR := False\<rparr>) \<and>
    HostTryWrite_Size64 machine_ops 0x1122334455667788 0x80001000 Virtual
      (console\<lparr>DR := False\<rparr>) = (None, console\<lparr>DR := False\<rparr>)) \<and>
   (msr_DR machine_ops console \<and> HostIsRAMAddress machine_ops console 0x80001000 Virtual) \<and>
   fst (HostTryRead machine_ops 0x80001000 Virtual console :: u32 ReadResult option \<times> Machine) =
     Some \<lparr>ReadResult.translated = True, rvalue = 0\<rparr> \<and>
   fst (HostTryWrite machine_ops 4 (0xDEADBEEF :: u32) 0x80001000 Virtual console) =
     Some \<lparr>WriteResult.translated = True\<rparr> \<and>
   (msr_DR machine_ops console \<and> HostIsRAMAddress machine_ops console 0x80001000 Virtual \<and>
    msr_DR machine_ops
      (WriteToHardware machine_ops NoException False 0x80001000
         (ucast (drop_bit 32 (0x1122334455667788 :: u64))) 4 console) \<and>
    HostIsRAMAddress machine_ops
      (WriteToHardware machine_ops NoException False 0x80001000
         (ucast (drop_bit 32 (0x1122334455667788 :: u64))) 4 console)
      (0x80001000 + 4) Virtual) \<and>
   fst (HostTryWrite_Size64 machine_ops 0x1122334455667788 0x80001000 Virtual console) =
     Some \<lparr>WriteResult.translated = True\<rparr>"
proof -
  have off: "\<not> msr_DR machine_ops (console\<lparr>DR := False\<rparr>)"
    by (simp add: machine_ops_simps)
  have on: "msr_DR machine_ops console \<and> HostIsRAMAddress machine_ops console 0x80001000 Virtual"
    by (simp add: console_is_ram) (simp add: machine_ops_simps console_simps)
  have rd: "ucast (fst (ReadFromHardware machine_ops NoException (sizeof TYPE(32)) False
      0x80001000 console)) = (0 :: u32)"
    by (simp add: machine_ops_simps sizeof_def console_read)
  note absent = C2_virtual_space [of machine_ops "console\<lparr>DR := False\<rparr>" "0x80001000" 4
        "0xDEADBEEF :: u32" "0x1122334455667788", where ?'a = 32, THEN conjunct1, THEN mp, OF off]
  note present = C2_virtual_space [of machine_ops console "0x80001000" 4
        "0xDEADBEEF :: u32" "0x1122334455667788", where ?'a = 32, THEN conjunct2, THEN conjunct1,
        THEN mp, OF on, unfolded rd]
  have on64: "msr_DR machine_ops console \<and>
      HostIsRAMAddress machine_ops console 0x80001000 Virtual \<and>
      msr_DR machine_ops
        (WriteToHardware machine_ops NoException False 0x80001000
           (ucast (drop_bit 32 (0x1122334455667788 :: u64))) 4 console) \<and>
      HostIsRAMAddress machine_ops
        (WriteToHardware machine_ops NoException False 0x80001000
           (ucast (drop_bit 32 (0x1122334455667788 :: u64))) 4 console)
        (0x80001000 + 4) Virtual"
    by (simp add: ops_simps access_defs translate_defs console_simps)
  note present64 = C2_virtual_space [of machine_ops console "0x80001000" 4
        "0xDEADBEEF :: u32" "0x1122334455667788", where ?'a = 32, THEN conjunct2, THEN conjunct2,
        THEN mp, OF on64]
  from off absent on present on64 present64 show ?thesis
    by blast
qed

subsection \<open>C3: the translated flag\<close>

text \<open>
  Claim C3: for every successful \<open>HostTryRead\<close> or \<open>HostTryWrite\<close> (either overload),
  the \<open>translated\<close> flag of the result is false in \<open>Physical\<close> space, true in
  \<open>Virtual\<close> space, and in \<open>Effective\<close> space it is \<open>MSR.DR\<close> as the result is built,
  that is, read after the hardware access.
\<close>

theorem C3_translated_flag:
  fixes mmu :: "'s MMU_ops"
  shows
  "(\<forall>r. fst (HostTryRead mmu addr space s :: ('a::len word) ReadResult option \<times> 's) = Some r \<longrightarrow>
      ReadResult.translated r =
        (case space of
           Effective \<Rightarrow> msr_DR mmu (snd (HostTryRead mmu addr space s :: ('a::len word) ReadResult option \<times> 's))
         | Physical \<Rightarrow> False
         | Virtual \<Rightarrow> True)) \<and>
   (\<forall>w. fst (HostTryWrite mmu sz (var :: 'b::len word) addr space s) = Some w \<longrightarrow>
      WriteResult.translated w =
        (case space of
           Effective \<Rightarrow> msr_DR mmu (snd (HostTryWrite mmu sz var addr space s))
         | Physical \<Rightarrow> False
         | Virtual \<Rightarrow> True)) \<and>
   (\<forall>w. fst (HostTryWrite_Size64 mmu var64 addr space s) = Some w \<longrightarrow>
      WriteResult.translated w =
        (case space of
           Effective \<Rightarrow> msr_DR mmu (snd (HostTryWrite_Size64 mmu var64 addr space s))
         | Physical \<Rightarrow> False
         | Virtual \<Rightarrow> True))"
proof -
  have w: "fst (HostTryWrite mmu sz v a space t) = Some w \<Longrightarrow>
      WriteResult.translated w =
        (case space of
           Effective \<Rightarrow> msr_DR mmu (snd (HostTryWrite mmu sz v a space t))
         | Physical \<Rightarrow> False
         | Virtual \<Rightarrow> True)"
    for sz and v :: "'c::len word" and a t w
    by (cases space) (auto simp: HostTryWrite_def Let_def split: if_splits)
  have r: "fst (HostTryRead mmu addr space s :: ('a::len word) ReadResult option \<times> 's) = Some r \<Longrightarrow>
      ReadResult.translated r =
        (case space of
           Effective \<Rightarrow> msr_DR mmu (snd (HostTryRead mmu addr space s :: ('a::len word) ReadResult option \<times> 's))
         | Physical \<Rightarrow> False
         | Virtual \<Rightarrow> True)" for r
    by (cases space) (auto simp: HostTryRead_def split: if_splits prod.splits)
  have w64: "fst (HostTryWrite_Size64 mmu var64 addr space s) = Some w \<Longrightarrow>
      WriteResult.translated w =
        (case space of
           Effective \<Rightarrow> msr_DR mmu (snd (HostTryWrite_Size64 mmu var64 addr space s))
         | Physical \<Rightarrow> False
         | Virtual \<Rightarrow> True)" for w
  proof -
    assume a: "fst (HostTryWrite_Size64 mmu var64 addr space s) = Some w"
    let ?first = "HostTryWrite mmu 4 (ucast (drop_bit 32 var64) :: u32) addr space s"
    from a have ne: "fst ?first \<noteq> None"
      by (cases ?first) (auto simp: HostTryWrite_Size64_def split: option.splits)
    then have eq: "HostTryWrite_Size64 mmu var64 addr space s =
        HostTryWrite mmu 4 (ucast var64 :: u32) (addr + 4) space (snd ?first)"
      by (cases ?first) (auto simp: HostTryWrite_Size64_def)
    from a show ?thesis
      unfolding eq by (rule w)
  qed
  from r w w64 show ?thesis by blast
qed

text \<open>
  Witness for C3: a read in \<open>Effective\<close> space, a write in \<open>Physical\<close> space and a
  64-bit write in \<open>Virtual\<close> space on the example machine.
\<close>

theorem C3_translated_flag_witness:
  "fst (HostTryRead machine_ops 0x80001000 Effective console :: u32 ReadResult option \<times> Machine) =
     Some \<lparr>ReadResult.translated = True, rvalue = 0\<rparr> \<and>
   msr_DR machine_ops
     (snd (HostTryRead machine_ops 0x80001000 Effective console :: u32 ReadResult option \<times> Machine)) \<and>
   fst (HostTryWrite machine_ops 4 (0xDEADBEEF :: u32) 0x1000 Physical console) =
     Some \<lparr>WriteResult.translated = False\<rparr> \<and>
   fst (HostTryWrite_Size64 machine_ops 0x1122334455667788 0x80001000 Virtual console) =
     Some \<lparr>WriteResult.translated = True\<rparr>"
proof -
  have r: "fst (HostTryRead machine_ops 0x80001000 Effective console
      :: u32 ReadResult option \<times> Machine) = Some \<lparr>ReadResult.translated = True, rvalue = 0\<rparr>"
    by (simp add: console_try_read)
  note eff = C3_translated_flag [of machine_ops "0x80001000" Effective console 4
      "0xDEADBEEF :: u32" "0x1122334455667788", where ?'a = 32,
      THEN conjunct1, THEN spec, THEN mp, OF r, simplified]
  from r eff console_try_write(3) console_try_write64(1) show ?thesis
    by blast
qed

subsection \<open>C4: the BAT table\<close>

text \<open>
  Claim C4 says that a \<open>BatTable\<close> has 128K entries. Counterexample to C4:
  \<open>BAT_PAGE_COUNT\<close> is \<open>1 << (32 - 17)\<close>, and neither it nor the length of a table is
  \<open>128 * 1024\<close>.
\<close>

theorem C4_counterexample:
  "unat BAT_PAGE_COUNT \<noteq> 128 * 1024 \<and> length (Rep_BatTable (bat_fill 0)) \<noteq> 128 * 1024"
  by (simp add: length_Rep_BatTable) (simp add: BAT_PAGE_COUNT_def BAT_INDEX_SHIFT_def)

text \<open>
  C4 as amended: a \<open>BatTable\<close> is an array of 32768 (32K) entries of 32 bits, 128 KiB in
  all; the page number \<open>address >> 17\<close>, that is bits 17 to 31 of the address, is always
  an index into it; the result mask and the three flag bits \<open>mapped\<close>, \<open>physical\<close> and
  \<open>write-inhibited\<close> are disjoint and cover the entry, so that an entry packing a
  page-aligned physical base with the three flags gives back the base under the mask and
  each flag under its bit.
\<close>

theorem C4_BatTable_layout:
  "unat BAT_PAGE_COUNT = 32768 \<and>
   length (Rep_BatTable t) = 32768 \<and>
   4 * length (Rep_BatTable t) = 128 * 1024 \<and>
   unat (drop_bit BAT_INDEX_SHIFT (a :: u32)) < length (Rep_BatTable t) \<and>
   unat (drop_bit BAT_INDEX_SHIFT a) = unat a div 2 ^ 17 \<and>
   (\<forall>n. bit (drop_bit BAT_INDEX_SHIFT a) n = (n < 15 \<and> bit a (17 + n))) \<and>
   BAT_RESULT_MASK AND (BAT_MAPPED_BIT OR BAT_PHYSICAL_BIT OR BAT_WI_BIT) = 0 \<and>
   BAT_RESULT_MASK OR (BAT_MAPPED_BIT OR BAT_PHYSICAL_BIT OR BAT_WI_BIT) = - 1 \<and>
   (p AND (BAT_PAGE_SIZE - 1) = 0 \<longrightarrow>
      (let entry = p OR (if m then BAT_MAPPED_BIT else 0) OR
                   (if ph then BAT_PHYSICAL_BIT else 0) OR (if w then BAT_WI_BIT else 0)
       in entry AND BAT_RESULT_MASK = p \<and>
          (entry AND BAT_MAPPED_BIT \<noteq> 0) = m \<and>
          (entry AND BAT_PHYSICAL_BIT \<noteq> 0) = ph \<and>
          (entry AND BAT_WI_BIT \<noteq> 0) = w))"
proof -
  have cnt: "unat BAT_PAGE_COUNT = 32768"
    by (simp add: BAT_PAGE_COUNT_def BAT_INDEX_SHIFT_def)
  have len: "length (Rep_BatTable t) = 32768"
    by (simp add: length_Rep_BatTable cnt)
  have bytes: "4 * length (Rep_BatTable t) = 128 * 1024"
    by (simp add: len)
  have idx: "unat (drop_bit BAT_INDEX_SHIFT a) < length (Rep_BatTable t)"
    using bat_index_less [of a] by (simp add: length_Rep_BatTable)
  have idx': "unat (drop_bit BAT_INDEX_SHIFT a) = unat a div 2 ^ 17"
    by (simp add: BAT_INDEX_SHIFT_def drop_bit_eq_div unat_div)
  have bits: "\<forall>n. bit (drop_bit BAT_INDEX_SHIFT a) n = (n < 15 \<and> bit a (17 + n))"
  proof
    fix n
    have "bit a (17 + n) \<Longrightarrow> n < 15"
      using bit_imp_le_length [of a "17 + n"] by simp
    then show "bit (drop_bit BAT_INDEX_SHIFT a) n = (n < 15 \<and> bit a (17 + n))"
      by (auto simp: BAT_INDEX_SHIFT_def bit_drop_bit_eq)
  qed
  have m0: "BAT_RESULT_MASK AND (BAT_MAPPED_BIT OR BAT_PHYSICAL_BIT OR BAT_WI_BIT) = 0"
    by (simp add: BAT_RESULT_MASK_def BAT_MAPPED_BIT_def BAT_PHYSICAL_BIT_def BAT_WI_BIT_def)
  have m1: "BAT_RESULT_MASK OR (BAT_MAPPED_BIT OR BAT_PHYSICAL_BIT OR BAT_WI_BIT) = - 1"
    by (simp add: BAT_RESULT_MASK_def BAT_MAPPED_BIT_def BAT_PHYSICAL_BIT_def BAT_WI_BIT_def)
  have pack: "p AND (BAT_PAGE_SIZE - 1) = 0 \<longrightarrow>
      (let entry = p OR (if m then BAT_MAPPED_BIT else 0) OR
                   (if ph then BAT_PHYSICAL_BIT else 0) OR (if w then BAT_WI_BIT else 0)
       in entry AND BAT_RESULT_MASK = p \<and>
          (entry AND BAT_MAPPED_BIT \<noteq> 0) = m \<and>
          (entry AND BAT_PHYSICAL_BIT \<noteq> 0) = ph \<and>
          (entry AND BAT_WI_BIT \<noteq> 0) = w)"
  proof
    assume al: "p AND (BAT_PAGE_SIZE - 1) = 0"
    have "BAT_PAGE_SIZE - 1 = mask 17"
      by (simp add: BAT_PAGE_SIZE_def BAT_INDEX_SHIFT_def mask_eq_exp_minus_1)
    with al have t17: "take_bit 17 p = 0"
      by (simp add: take_bit_eq_mask)
    have "(7 :: u32) = mask 3"
      by (simp add: mask_eq_exp_minus_1)
    then have "p AND 7 = take_bit 3 p"
      by (simp add: take_bit_eq_mask)
    also have "\<dots> = take_bit 3 (take_bit 17 p)"
      by simp
    finally have p7: "p AND 7 = 0"
      by (simp only: t17 take_bit_of_0)
    have p1: "p AND 1 = 0" "p AND 2 = 0" "p AND 4 = 0"
    proof -
      have "p AND 1 = (p AND 7) AND 1" "p AND 2 = (p AND 7) AND 2" "p AND 4 = (p AND 7) AND 4"
        by (simp_all add: and.assoc)
      then show "p AND 1 = 0" "p AND 2 = 0" "p AND 4 = 0"
        by (simp_all add: p7)
    qed
    have low: "\<not> bit p n" if "n < 17" for n
      using that t17 bit_take_bit_iff [of 17 p n] by simp
    have "p AND NOT (mask 3) = p"
      by (rule bit_eqI) (use low in \<open>force simp add: bit_simps\<close>)
    then have pm: "p AND NOT 7 = p"
      by (simp add: mask_eq_exp_minus_1)
    show "let entry = p OR (if m then BAT_MAPPED_BIT else 0) OR
                   (if ph then BAT_PHYSICAL_BIT else 0) OR (if w then BAT_WI_BIT else 0)
       in entry AND BAT_RESULT_MASK = p \<and>
          (entry AND BAT_MAPPED_BIT \<noteq> 0) = m \<and>
          (entry AND BAT_PHYSICAL_BIT \<noteq> 0) = ph \<and>
          (entry AND BAT_WI_BIT \<noteq> 0) = w"
      using p1 pm
      by (simp add: Let_def BAT_RESULT_MASK_def BAT_MAPPED_BIT_def BAT_PHYSICAL_BIT_def
          BAT_WI_BIT_def bit.conj_disj_distrib2)
  qed
  show ?thesis
    by (intro conjI) (rule cnt len bytes idx idx' bits m0 m1 pack)+
qed

text \<open>
  Witness for C4: the page-aligned base \<open>0x00020000\<close> packed with \<open>mapped\<close> and
  \<open>physical\<close>, and the page number of \<open>0x80001000\<close>.
\<close>

theorem C4_BatTable_layout_witness:
  "(0x00020000 :: u32) AND (BAT_PAGE_SIZE - 1) = 0 \<and>
   (0x00020003 :: u32) AND BAT_RESULT_MASK = 0x00020000 \<and>
   ((0x00020003 :: u32) AND BAT_MAPPED_BIT \<noteq> 0) = True \<and>
   ((0x00020003 :: u32) AND BAT_PHYSICAL_BIT \<noteq> 0) = True \<and>
   ((0x00020003 :: u32) AND BAT_WI_BIT \<noteq> 0) = False \<and>
   unat (drop_bit BAT_INDEX_SHIFT (0x80001000 :: u32)) = 0x4000 \<and>
   unat (drop_bit BAT_INDEX_SHIFT (0x80001000 :: u32)) < length (Rep_BatTable (bat_fill 0))"
proof -
  have al: "(0x00020000 :: u32) AND (BAT_PAGE_SIZE - 1) = 0"
    by (simp add: BAT_PAGE_SIZE_def BAT_INDEX_SHIFT_def)
  note layout = C4_BatTable_layout [of "bat_fill 0" "0x80001000" "0x00020000" True True False]
  have pack: "(0x00020003 :: u32) AND BAT_RESULT_MASK = 0x00020000 \<and>
      ((0x00020003 :: u32) AND BAT_MAPPED_BIT \<noteq> 0) = True \<and>
      ((0x00020003 :: u32) AND BAT_PHYSICAL_BIT \<noteq> 0) = True \<and>
      ((0x00020003 :: u32) AND BAT_WI_BIT \<noteq> 0) = False"
    using layout [THEN conjunct2, THEN conjunct2, THEN conjunct2, THEN conjunct2, THEN conjunct2,
        THEN conjunct2, THEN conjunct2, THEN conjunct2, THEN mp, OF al]
    by (simp add: Let_def BAT_MAPPED_BIT_def BAT_PHYSICAL_BIT_def BAT_WI_BIT_def)
  have idx: "unat (drop_bit BAT_INDEX_SHIFT (0x80001000 :: u32)) = 0x4000"
    using layout [THEN conjunct2, THEN conjunct2, THEN conjunct2, THEN conjunct2, THEN conjunct1]
    by simp
  have lt: "unat (drop_bit BAT_INDEX_SHIFT (0x80001000 :: u32)) < length (Rep_BatTable (bat_fill 0))"
    using layout [THEN conjunct2, THEN conjunct2, THEN conjunct2, THEN conjunct1] .
  from al pack idx lt show ?thesis
    by blast
qed

subsection \<open>C5: Success\<close>

text \<open>
  Claim C5: for every \<open>TranslateAddressResult\<close>, \<open>Success()\<close> holds exactly when the
  result kind is BAT-translated or page-table-translated, that is, any kind except
  page-fault and direct-store-segment.
\<close>

theorem C5_Success_iff:
  "Success r = (result r = BAT_TRANSLATED \<or> result r = PAGE_TABLE_TRANSLATED) \<and>
   Success r = (result r \<noteq> PAGE_FAULT \<and> result r \<noteq> DIRECT_STORE_SEGMENT)"
  by (cases "result r") (simp_all add: Success_def word_le_nat_alt)

text \<open>
  Witness for C5: one result of each kind.
\<close>

theorem C5_Success_iff_witness:
  "Success (mk_TranslateAddressResult BAT_TRANSLATED 0x1000 False) \<and>
   Success (mk_TranslateAddressResult PAGE_TABLE_TRANSLATED 0x20123 True) \<and>
   \<not> Success (mk_TranslateAddressResult DIRECT_STORE_SEGMENT 0 False) \<and>
   \<not> Success (mk_TranslateAddressResult PAGE_FAULT 0 False)"
  using C5_Success_iff [of "mk_TranslateAddressResult BAT_TRANSLATED 0x1000 False"]
    C5_Success_iff [of "mk_TranslateAddressResult PAGE_TABLE_TRANSLATED 0x20123 True"]
    C5_Success_iff [of "mk_TranslateAddressResult DIRECT_STORE_SEGMENT 0 False"]
    C5_Success_iff [of "mk_TranslateAddressResult PAGE_FAULT 0 False"]
  by (simp add: mk_TranslateAddressResult_def)

subsection \<open>C6: the fields of an effective address\<close>

text \<open>
  Claim C6: for every 32-bit address, the \<open>EffectiveAddress\<close> view leaves the value
  unchanged (\<open>Hex\<close>) and decomposes it into \<open>offset\<close> = bits 0 to 11, \<open>page_index\<close> =
  bits 12 to 27, \<open>API\<close> = bits 22 to 27 and \<open>SR\<close> = bits 28 to 31; the offset, the page index
  and the segment-register index put the address together again.
\<close>

theorem C6_EffectiveAddress_fields:
  "Hex (mk_EffectiveAddress a) = a \<and>
   (\<forall>n. bit (offset (mk_EffectiveAddress a)) n = (n < 12 \<and> bit a n)) \<and>
   (\<forall>n. bit (page_index (mk_EffectiveAddress a)) n = (n < 16 \<and> bit a (12 + n))) \<and>
   (\<forall>n. bit (API (mk_EffectiveAddress a)) n = (n < 6 \<and> bit a (22 + n))) \<and>
   (\<forall>n. bit (SR (mk_EffectiveAddress a)) n = (n < 4 \<and> bit a (28 + n))) \<and>
   unat (offset (mk_EffectiveAddress a)) = unat a mod 4096 \<and>
   unat (page_index (mk_EffectiveAddress a)) = unat a div 4096 mod 65536 \<and>
   unat (API (mk_EffectiveAddress a)) = unat a div 4194304 mod 64 \<and>
   unat (SR (mk_EffectiveAddress a)) = unat a div 268435456 \<and>
   a = push_bit 28 (SR (mk_EffectiveAddress a)) OR
       push_bit 12 (page_index (mk_EffectiveAddress a)) OR offset (mk_EffectiveAddress a)"
proof -
  let ?ea = "mk_EffectiveAddress a"
  have b0: "\<forall>n. bit (offset ?ea) n = (n < 12 \<and> bit a n)"
    by (simp add: offset_def bit_BitField Hex_mk_EffectiveAddress)
  have b1: "\<forall>n. bit (page_index ?ea) n = (n < 16 \<and> bit a (12 + n))"
    by (simp add: page_index_def bit_BitField Hex_mk_EffectiveAddress)
  have b2: "\<forall>n. bit (API ?ea) n = (n < 6 \<and> bit a (22 + n))"
    by (simp add: API_def bit_BitField Hex_mk_EffectiveAddress)
  have b3: "\<forall>n. bit (SR ?ea) n = (n < 4 \<and> bit a (28 + n))"
    by (simp add: SR_def bit_BitField Hex_mk_EffectiveAddress)
  have lt: "unat a < 2 ^ 32"
    using unsigned_less [of a] by simp
  have u0: "unat (offset ?ea) = unat a mod 4096"
    by (simp add: offset_def unat_BitField Hex_mk_EffectiveAddress)
  have u1: "unat (page_index ?ea) = unat a div 4096 mod 65536"
    by (simp add: page_index_def unat_BitField Hex_mk_EffectiveAddress)
  have u2: "unat (API ?ea) = unat a div 4194304 mod 64"
    by (simp add: API_def unat_BitField Hex_mk_EffectiveAddress)
  have "unat (SR ?ea) = unat a div 268435456 mod 16"
    by (simp add: SR_def unat_BitField Hex_mk_EffectiveAddress)
  moreover have "unat a div 268435456 < 16"
    using lt by (simp add: less_mult_imp_div_less)
  ultimately have u3: "unat (SR ?ea) = unat a div 268435456"
    by simp
  have re: "a = push_bit 28 (SR ?ea) OR push_bit 12 (page_index ?ea) OR offset ?ea"
  proof (rule bit_eqI)
    fix n
    assume "possible_bit TYPE(u32) n"
    then have n: "n < 32" by (simp add: possible_bit_def)
    consider "n < 12" | "12 \<le> n" "n < 28" | "28 \<le> n" by linarith
    then show "bit a n = bit (push_bit 28 (SR ?ea) OR push_bit 12 (page_index ?ea) OR offset ?ea) n"
      using n
      by cases (auto simp: bit_or_iff bit_push_bit_iff offset_def page_index_def SR_def
          bit_BitField Hex_mk_EffectiveAddress)
  qed
  show ?thesis
    by (intro conjI) (rule Hex_mk_EffectiveAddress b0 b1 b2 b3 u0 u1 u2 u3 re)+
qed

text \<open>
  Witness for C6: the fields of \<open>0x80C01234\<close>.
\<close>

theorem C6_EffectiveAddress_fields_witness:
  "Hex (mk_EffectiveAddress 0x80C01234) = 0x80C01234 \<and>
   unat (offset (mk_EffectiveAddress 0x80C01234)) = 0x234 \<and>
   unat (page_index (mk_EffectiveAddress 0x80C01234)) = 0x0C01 \<and>
   unat (API (mk_EffectiveAddress 0x80C01234)) = 3 \<and>
   unat (SR (mk_EffectiveAddress 0x80C01234)) = 8"
proof -
  note f = C6_EffectiveAddress_fields [of "0x80C01234"]
  have u0: "unat (offset (mk_EffectiveAddress 0x80C01234)) = unat (0x80C01234 :: u32) mod 4096"
    using f by (elim conjE)
  have u1: "unat (page_index (mk_EffectiveAddress 0x80C01234)) =
      unat (0x80C01234 :: u32) div 4096 mod 65536"
    using f by (elim conjE)
  have u2: "unat (API (mk_EffectiveAddress 0x80C01234)) =
      unat (0x80C01234 :: u32) div 4194304 mod 64"
    using f by (elim conjE)
  have u3: "unat (SR (mk_EffectiveAddress 0x80C01234)) = unat (0x80C01234 :: u32) div 268435456"
    using f by (elim conjE)
  have h: "Hex (mk_EffectiveAddress 0x80C01234) = 0x80C01234"
    using f by (elim conjE)
  show ?thesis
    unfolding u0 u1 u2 u3 h by simp
qed

subsection \<open>C7: probing modes and excepting modes\<close>

text \<open>
  Claim C7, on the translator and the hardware access engine modelled from the spec. In
  the probing modes \<open>NoException\<close> and \<open>OpcodeNoException\<close> a translation leaves the whole
  machine as it was: it raises no guest exception, shows no diagnostic and mutates no
  referenced or changed bit; a probing read or write raises no exception and leaves the
  page table as it was; and when the translation of a probing access fails, the read is
  zero, the write does nothing and the machine is left as it was. The failure shows in
  the result and only there: in every mode the result kind is BAT-translated exactly for
  a mapped BAT entry, else direct-store-segment exactly for a direct-store segment, else
  page-table-translated exactly when the entry group holds a valid entry of the page, and
  page-fault otherwise; and the result of a probing mode is the result of the excepting
  modes on the same side. In the modes \<open>Read\<close>, \<open>Write\<close> and \<open>Opcode\<close> a failed translation
  of an access raises DSI (ISI for \<open>Opcode\<close>), and a page-table hit leaves the matching
  entry with its referenced bit set, and its changed bit too for \<open>Write\<close>.
\<close>

theorem C7_probing_modes:
  "((flag = NoException \<or> flag = OpcodeNoException) \<longrightarrow>
      snd (TranslateAddress flag a s) = s \<and>
      exceptions (snd (machine_ReadFromHardware flag n nt a s)) = exceptions s \<and>
      page_table (snd (machine_ReadFromHardware flag n nt a s)) = page_table s \<and>
      exceptions (machine_WriteToHardware flag nt a d k s) = exceptions s \<and>
      page_table (machine_WriteToHardware flag nt a d k s) = page_table s \<and>
      (\<not> nt \<and> (if IsOpcodeFlag flag then IR s else DR s) \<and>
       \<not> Success (fst (TranslateAddress flag a s)) \<longrightarrow>
         machine_ReadFromHardware flag n nt a s = (0, s) \<and>
         machine_WriteToHardware flag nt a d k s = s)) \<and>
   result (fst (TranslateAddress flag a s)) =
     (if bat_entry (if IsOpcodeFlag flag then m_ibat_table s else m_dbat_table s) a
           AND BAT_MAPPED_BIT \<noteq> 0
      then BAT_TRANSLATED
      else if direct_store (segment_registers s (SR (mk_EffectiveAddress a)))
      then DIRECT_STORE_SEGMENT
      else if \<exists>p\<in>set (page_table s
                  (pteg_hash s (vsid (segment_registers s (SR (mk_EffectiveAddress a))))
                     (API (mk_EffectiveAddress a)))).
                pte_valid p \<and> pte_API p = API (mk_EffectiveAddress a)
      then PAGE_TABLE_TRANSLATED
      else PAGE_FAULT) \<and>
   (IsOpcodeFlag flag' = IsOpcodeFlag flag \<longrightarrow>
      fst (TranslateAddress flag' a s) = fst (TranslateAddress flag a s)) \<and>
   ((flag = Read \<or> flag = Write \<or> flag = Opcode) \<and> \<not> nt \<and>
    (if IsOpcodeFlag flag then IR s else DR s) \<and>
    \<not> Success (fst (TranslateAddress flag a s)) \<longrightarrow>
      exceptions (snd (machine_ReadFromHardware flag n nt a s)) =
        exceptions s @ [if IsOpcodeFlag flag then ISI a else DSI a False] \<and>
      exceptions (machine_WriteToHardware flag nt a d k s) =
        exceptions s @ [if IsOpcodeFlag flag then ISI a else DSI a True]) \<and>
   ((flag = Read \<or> flag = Write \<or> flag = Opcode) \<and>
    result (fst (TranslateAddress flag a s)) = PAGE_TABLE_TRANSLATED \<longrightarrow>
      (\<exists>q ps. scan_pteg NoException (API (mk_EffectiveAddress a))
           (page_table (snd (TranslateAddress flag a s))
              (pteg_hash s (vsid (segment_registers s (SR (mk_EffectiveAddress a))))
                 (API (mk_EffectiveAddress a)))) = Some (q, ps) \<and>
         pte_R q \<and> (flag = Write \<longrightarrow> pte_C q)))"
proof -
  have probe: "(flag = NoException \<or> flag = OpcodeNoException) = IsNoExceptionFlag flag"
    by (cases flag) simp_all
  have exc: "(flag = Read \<or> flag = Write \<or> flag = Opcode) = (\<not> IsNoExceptionFlag flag)"
    by (cases flag) simp_all
  have A: "IsNoExceptionFlag flag \<longrightarrow>
      snd (TranslateAddress flag a s) = s \<and>
      exceptions (snd (machine_ReadFromHardware flag n nt a s)) = exceptions s \<and>
      page_table (snd (machine_ReadFromHardware flag n nt a s)) = page_table s \<and>
      exceptions (machine_WriteToHardware flag nt a d k s) = exceptions s \<and>
      page_table (machine_WriteToHardware flag nt a d k s) = page_table s \<and>
      (\<not> nt \<and> (if IsOpcodeFlag flag then IR s else DR s) \<and>
       \<not> Success (fst (TranslateAddress flag a s)) \<longrightarrow>
         machine_ReadFromHardware flag n nt a s = (0, s) \<and>
         machine_WriteToHardware flag nt a d k s = s)"
    using TranslateAddress_probe [of flag a s] ReadFromHardware_probe [of flag n nt a s]
      WriteToHardware_probe [of flag nt a d k s] probe_failure [of flag nt s a n d k]
    by blast
  have C: "IsOpcodeFlag flag' = IsOpcodeFlag flag \<longrightarrow>
      fst (TranslateAddress flag' a s) = fst (TranslateAddress flag a s)"
    using TranslateAddress_result_flag [of flag' flag a s] by blast
  have D: "\<not> IsNoExceptionFlag flag \<and> \<not> nt \<and>
    (if IsOpcodeFlag flag then IR s else DR s) \<and>
    \<not> Success (fst (TranslateAddress flag a s)) \<longrightarrow>
      exceptions (snd (machine_ReadFromHardware flag n nt a s)) =
        exceptions s @ [if IsOpcodeFlag flag then ISI a else DSI a False] \<and>
      exceptions (machine_WriteToHardware flag nt a d k s) =
        exceptions s @ [if IsOpcodeFlag flag then ISI a else DSI a True]"
    using fault_raised [of flag nt s a n d k] by blast
  have E: "\<not> IsNoExceptionFlag flag \<and>
    result (fst (TranslateAddress flag a s)) = PAGE_TABLE_TRANSLATED \<longrightarrow>
      (\<exists>q ps. scan_pteg NoException (API (mk_EffectiveAddress a))
           (page_table (snd (TranslateAddress flag a s))
              (pteg_hash s (vsid (segment_registers s (SR (mk_EffectiveAddress a))))
                 (API (mk_EffectiveAddress a)))) = Some (q, ps) \<and>
         pte_R q \<and> (flag = Write \<longrightarrow> pte_C q))"
    using page_walk_touched [of flag a s] by blast
  show ?thesis
    unfolding probe exc
    by (intro conjI) (rule A TranslateAddress_kind C D E)+
qed

text \<open>
  Witness for C7: on the example machine, a probe and a \<open>Read\<close> access at the
  page-faulting address \<open>0x7FFFFFFC\<close>, and a \<open>Write\<close> translation of \<open>0x40000123\<close>, which
  the page table maps.
\<close>

theorem C7_probing_modes_witness:
  "snd (TranslateAddress NoException 0x7FFFFFFC console) = console \<and>
   result (fst (TranslateAddress NoException 0x7FFFFFFC console)) = PAGE_FAULT \<and>
   \<not> Success (fst (TranslateAddress NoException 0x7FFFFFFC console)) \<and>
   fst (TranslateAddress Read 0x7FFFFFFC console) =
     fst (TranslateAddress NoException 0x7FFFFFFC console) \<and>
   machine_ReadFromHardware NoException 4 False 0x7FFFFFFC console = (0, console) \<and>
   machine_WriteToHardware NoException False 0x7FFFFFFC 0xDEADBEEF 4 console = console \<and>
   \<not> Success (fst (TranslateAddress Read 0x7FFFFFFC console)) \<and>
   exceptions (snd (machine_ReadFromHardware Read 4 False 0x7FFFFFFC console)) =
     [DSI 0x7FFFFFFC False] \<and>
   exceptions (machine_WriteToHardware Read False 0x7FFFFFFC 0xDEADBEEF 4 console) =
     [DSI 0x7FFFFFFC True] \<and>
   result (fst (TranslateAddress Write 0x40000123 console)) = PAGE_TABLE_TRANSLATED \<and>
   (\<exists>q ps. scan_pteg NoException (API (mk_EffectiveAddress 0x40000123))
        (page_table (snd (TranslateAddress Write 0x40000123 console))
           (pteg_hash console (vsid (segment_registers console (SR (mk_EffectiveAddress 0x40000123))))
              (API (mk_EffectiveAddress 0x40000123)))) = Some (q, ps) \<and>
      pte_R q \<and> pte_C q) \<and>
   page_table (snd (TranslateAddress Write 0x40000123 console)) 4 =
     [\<lparr>pte_valid = True, pte_API = 0, pte_RPN = 0x20, pte_R = True, pte_C = True,
       pte_WI = False\<rparr>] \<and>
   page_table (snd (TranslateAddress NoException 0x40000123 console)) 4 =
     [\<lparr>pte_valid = True, pte_API = 0, pte_RPN = 0x20, pte_R = False, pte_C = False,
       pte_WI = False\<rparr>]"
proof -
  have h1: "NoException = NoException \<or> NoException = OpcodeNoException"
    by simp
  have k1: "result (fst (TranslateAddress NoException 0x7FFFFFFC console)) = PAGE_FAULT"
    by (simp add: console_translate_fault)
  have h1': "\<not> False \<and> (if IsOpcodeFlag NoException then IR console else DR console) \<and>
      \<not> Success (fst (TranslateAddress NoException 0x7FFFFFFC console))"
    by (simp add: console_translate_fault Success_cases console_simps)
  have h2: "(Read = Read \<or> Read = Write \<or> Read = Opcode) \<and> \<not> False \<and>
      (if IsOpcodeFlag Read then IR console else DR console) \<and>
      \<not> Success (fst (TranslateAddress Read 0x7FFFFFFC console))"
    by (simp add: console_translate_read_fault Success_cases console_simps)
  have h3: "(Write = Read \<or> Write = Write \<or> Write = Opcode) \<and>
      result (fst (TranslateAddress Write 0x40000123 console)) = PAGE_TABLE_TRANSLATED"
    by (simp add: console_translate_write_walk)
  have h4: "IsOpcodeFlag Read = IsOpcodeFlag NoException"
    by simp
  note thm1 = C7_probing_modes [where flag = NoException and a = "0x7FFFFFFC" and s = console
      and n = 4 and nt = False and d = "0xDEADBEEF" and k = 4 and flag' = Read]
  note probing = thm1 [THEN conjunct1, THEN mp, OF h1]
  note same = thm1 [THEN conjunct2, THEN conjunct2, THEN conjunct1, THEN mp, OF h4]
  note faults = C7_probing_modes [where flag = Read and a = "0x7FFFFFFC" and s = console
      and n = 4 and nt = False and d = "0xDEADBEEF" and k = 4 and flag' = Read,
      THEN conjunct2, THEN conjunct2, THEN conjunct2, THEN conjunct1, THEN mp, OF h2]
  note bits = C7_probing_modes [where flag = Write and a = "0x40000123" and s = console
      and n = 4 and nt = False and d = "0xDEADBEEF" and k = 4 and flag' = Write,
      THEN conjunct2, THEN conjunct2, THEN conjunct2, THEN conjunct2, THEN mp, OF h3]
  have e: "exceptions console = []"
    by (simp add: console_simps)
  from faults have f:
    "exceptions (snd (machine_ReadFromHardware Read 4 False 0x7FFFFFFC console)) =
       [DSI 0x7FFFFFFC False]"
    "exceptions (machine_WriteToHardware Read False 0x7FFFFFFC 0xDEADBEEF 4 console) =
       [DSI 0x7FFFFFFC True]"
    by (simp_all add: e)
  from bits have b: "\<exists>q ps. scan_pteg NoException (API (mk_EffectiveAddress 0x40000123))
        (page_table (snd (TranslateAddress Write 0x40000123 console))
           (pteg_hash console (vsid (segment_registers console (SR (mk_EffectiveAddress 0x40000123))))
              (API (mk_EffectiveAddress 0x40000123)))) = Some (q, ps) \<and>
      pte_R q \<and> pte_C q"
    by simp
  from probing h1' k1 same f h2 h3 b console_translate_write_walk(3,4) show ?thesis
    by blast
qed

subsection \<open>C8: write then read in Physical space\<close>

text \<open>
  Claim C8 says that for every aligned address a write in \<open>Physical\<close> space followed by
  a read of the same width there returns the value written. Counterexample to C8: on the
  example machine the aligned physical address \<open>0x02000000\<close> lies beyond the RAM, so
  \<open>HostIsRAMAddress\<close> is false there; the write of \<open>0xDEADBEEF\<close> returns no value and
  changes nothing, and the read returns no value either, so it does not return
  \<open>0xDEADBEEF\<close>.
\<close>

theorem C8_counterexample:
  "unat (0x02000000 :: u32) mod 4 = 0 \<and>
   \<not> HostIsRAMAddress machine_ops console 0x02000000 Physical \<and>
   HostTryWrite machine_ops 4 (0xDEADBEEF :: u32) 0x02000000 Physical console = (None, console) \<and>
   (HostTryRead machine_ops 0x02000000 Physical console :: u32 ReadResult option \<times> Machine) =
     (None, console) \<and>
   fst (HostTryRead machine_ops 0x02000000 Physical console :: u32 ReadResult option \<times> Machine) \<noteq>
     Some \<lparr>ReadResult.translated = False, rvalue = 0xDEADBEEF\<rparr>"
  using console_is_ram(7) by (simp add: HostTryWrite_def HostTryRead_def)

text \<open>
  C8 as amended, on the machine modelled from the spec: for every aligned address at
  which \<open>HostIsRAMAddress\<close> holds in \<open>Physical\<close> space (for 64 bits also at the address
  plus 4) and whose accessed bytes all lie in RAM, and every value of 8, 16, 32 or 64
  bits, \<open>HostTryWrite\<close> in \<open>Physical\<close> space returns a value and \<open>HostTryRead\<close> of the same
  width at the same address afterwards returns the value written, both with
  \<open>translated = false\<close>. At an address where \<open>HostIsRAMAddress\<close> does not hold in
  \<open>Physical\<close> space, the write and the read of every width return an absent result and
  leave the machine as it was, so nothing is written.
\<close>

theorem C8_physical_round_trip:
  "(HostIsRAMAddress machine_ops s a Physical \<and> load_bytes (ram s) a 1 \<noteq> None \<longrightarrow>
      fst (HostTryWrite machine_ops 1 (v8 :: u8) a Physical s) =
        Some \<lparr>WriteResult.translated = False\<rparr> \<and>
      fst (HostTryRead machine_ops a Physical
             (snd (HostTryWrite machine_ops 1 v8 a Physical s))) =
        Some \<lparr>ReadResult.translated = False, rvalue = v8\<rparr>) \<and>
   (unat a mod 2 = 0 \<and>
    HostIsRAMAddress machine_ops s a Physical \<and> load_bytes (ram s) a 2 \<noteq> None \<longrightarrow>
      fst (HostTryWrite machine_ops 2 (v16 :: u16) a Physical s) =
        Some \<lparr>WriteResult.translated = False\<rparr> \<and>
      fst (HostTryRead machine_ops a Physical
             (snd (HostTryWrite machine_ops 2 v16 a Physical s))) =
        Some \<lparr>ReadResult.translated = False, rvalue = v16\<rparr>) \<and>
   (unat a mod 4 = 0 \<and>
    HostIsRAMAddress machine_ops s a Physical \<and> load_bytes (ram s) a 4 \<noteq> None \<longrightarrow>
      fst (HostTryWrite machine_ops 4 (v32 :: u32) a Physical s) =
        Some \<lparr>WriteResult.translated = False\<rparr> \<and>
      fst (HostTryRead machine_ops a Physical
             (snd (HostTryWrite machine_ops 4 v32 a Physical s))) =
        Some \<lparr>ReadResult.translated = False, rvalue = v32\<rparr>) \<and>
   (unat a mod 8 = 0 \<and>
    HostIsRAMAddress machine_ops s a Physical \<and>
    HostIsRAMAddress machine_ops s (a + 4) Physical \<and> load_bytes (ram s) a 8 \<noteq> None \<longrightarrow>
      fst (HostTryWrite_Size64 machine_ops v64 a Physical s) =
        Some \<lparr>WriteResult.translated = False\<rparr> \<and>
      fst (HostTryRead machine_ops a Physical
             (snd (HostTryWrite_Size64 machine_ops v64 a Physical s))) =
        Some \<lparr>ReadResult.translated = False, rvalue = v64\<rparr>) \<and>
   (\<not> HostIsRAMAddress machine_ops s a Physical \<longrightarrow>
      HostTryWrite machine_ops 1 v8 a Physical s = (None, s) \<and>
      HostTryWrite machine_ops 2 v16 a Physical s = (None, s) \<and>
      HostTryWrite machine_ops 4 v32 a Physical s = (None, s) \<and>
      HostTryWrite_Size64 machine_ops v64 a Physical s = (None, s) \<and>
      (HostTryRead machine_ops a Physical s :: u8 ReadResult option \<times> Machine) = (None, s) \<and>
      (HostTryRead machine_ops a Physical s :: u16 ReadResult option \<times> Machine) = (None, s) \<and>
      (HostTryRead machine_ops a Physical s :: u32 ReadResult option \<times> Machine) = (None, s) \<and>
      (HostTryRead machine_ops a Physical s :: u64 ReadResult option \<times> Machine) = (None, s))"
proof -
  have r8: "HostIsRAMAddress machine_ops s a Physical \<and> load_bytes (ram s) a 1 \<noteq> None \<longrightarrow>
      fst (HostTryWrite machine_ops 1 (v8 :: u8) a Physical s) =
        Some \<lparr>WriteResult.translated = False\<rparr> \<and>
      fst (HostTryRead machine_ops a Physical
             (snd (HostTryWrite machine_ops 1 v8 a Physical s))) =
        Some \<lparr>ReadResult.translated = False, rvalue = v8\<rparr>"
    using round_trip_small [of 1 s a v8] by simp
  have r16: "HostIsRAMAddress machine_ops s a Physical \<and> load_bytes (ram s) a 2 \<noteq> None \<longrightarrow>
      fst (HostTryWrite machine_ops 2 (v16 :: u16) a Physical s) =
        Some \<lparr>WriteResult.translated = False\<rparr> \<and>
      fst (HostTryRead machine_ops a Physical
             (snd (HostTryWrite machine_ops 2 v16 a Physical s))) =
        Some \<lparr>ReadResult.translated = False, rvalue = v16\<rparr>"
    using round_trip_small [of 2 s a v16] by simp
  have r32: "HostIsRAMAddress machine_ops s a Physical \<and> load_bytes (ram s) a 4 \<noteq> None \<longrightarrow>
      fst (HostTryWrite machine_ops 4 (v32 :: u32) a Physical s) =
        Some \<lparr>WriteResult.translated = False\<rparr> \<and>
      fst (HostTryRead machine_ops a Physical
             (snd (HostTryWrite machine_ops 4 v32 a Physical s))) =
        Some \<lparr>ReadResult.translated = False, rvalue = v32\<rparr>"
    using round_trip_small [of 4 s a v32] by simp
  have r64: "HostIsRAMAddress machine_ops s a Physical \<and>
    HostIsRAMAddress machine_ops s (a + 4) Physical \<and> load_bytes (ram s) a 8 \<noteq> None \<longrightarrow>
      fst (HostTryWrite_Size64 machine_ops v64 a Physical s) =
        Some \<lparr>WriteResult.translated = False\<rparr> \<and>
      fst (HostTryRead machine_ops a Physical
             (snd (HostTryWrite_Size64 machine_ops v64 a Physical s))) =
        Some \<lparr>ReadResult.translated = False, rvalue = v64\<rparr>"
    using round_trip_64 [of s a v64] by blast
  have absent: "\<not> HostIsRAMAddress machine_ops s a Physical \<longrightarrow>
      HostTryWrite machine_ops 1 v8 a Physical s = (None, s) \<and>
      HostTryWrite machine_ops 2 v16 a Physical s = (None, s) \<and>
      HostTryWrite machine_ops 4 v32 a Physical s = (None, s) \<and>
      HostTryWrite_Size64 machine_ops v64 a Physical s = (None, s) \<and>
      (HostTryRead machine_ops a Physical s :: u8 ReadResult option \<times> Machine) = (None, s) \<and>
      (HostTryRead machine_ops a Physical s :: u16 ReadResult option \<times> Machine) = (None, s) \<and>
      (HostTryRead machine_ops a Physical s :: u32 ReadResult option \<times> Machine) = (None, s) \<and>
      (HostTryRead machine_ops a Physical s :: u64 ReadResult option \<times> Machine) = (None, s)"
    by (simp add: HostTryWrite_def HostTryWrite_Size64_def HostTryRead_def)
  from r8 r16 r32 r64 absent show ?thesis
    by blast
qed

text \<open>
  Witness for C8: 32 and 64 bits at physical address \<open>0x1000\<close> of the example machine,
  and at \<open>0x02000000\<close>, beyond its RAM.
\<close>

theorem C8_physical_round_trip_witness:
  "(unat (0x1000 :: u32) mod 4 = 0 \<and>
    HostIsRAMAddress machine_ops console 0x1000 Physical \<and>
    load_bytes (ram console) 0x1000 4 \<noteq> None) \<and>
   fst (HostTryWrite machine_ops 4 (0xDEADBEEF :: u32) 0x1000 Physical console) =
     Some \<lparr>WriteResult.translated = False\<rparr> \<and>
   fst (HostTryRead machine_ops 0x1000 Physical
          (snd (HostTryWrite machine_ops 4 (0xDEADBEEF :: u32) 0x1000 Physical console))) =
     Some \<lparr>ReadResult.translated = False, rvalue = (0xDEADBEEF :: u32)\<rparr> \<and>
   (unat (0x1000 :: u32) mod 8 = 0 \<and>
    HostIsRAMAddress machine_ops console 0x1000 Physical \<and>
    HostIsRAMAddress machine_ops console (0x1000 + 4) Physical \<and>
    load_bytes (ram console) 0x1000 8 \<noteq> None) \<and>
   fst (HostTryWrite_Size64 machine_ops 0x1122334455667788 0x1000 Physical console) =
     Some \<lparr>WriteResult.translated = False\<rparr> \<and>
   fst (HostTryRead machine_ops 0x1000 Physical
          (snd (HostTryWrite_Size64 machine_ops 0x1122334455667788 0x1000 Physical console))) =
     Some \<lparr>ReadResult.translated = False, rvalue = (0x1122334455667788 :: u64)\<rparr> \<and>
   \<not> HostIsRAMAddress machine_ops console 0x02000000 Physical \<and>
   HostTryWrite machine_ops 4 (0xDEADBEEF :: u32) 0x02000000 Physical console =
     (None, console) \<and>
   HostTryWrite_Size64 machine_ops 0x1122334455667788 0x02000000 Physical console =
     (None, console) \<and>
   (HostTryRead machine_ops 0x02000000 Physical console :: u32 ReadResult option \<times> Machine) =
     (None, console) \<and>
   (HostTryRead machine_ops 0x02000000 Physical console :: u64 ReadResult option \<times> Machine) =
     (None, console)"
proof -
  have h32: "unat (0x1000 :: u32) mod 4 = 0 \<and>
      HostIsRAMAddress machine_ops console 0x1000 Physical \<and>
      load_bytes (ram console) 0x1000 4 \<noteq> None"
    by (simp add: console_is_ram) (simp add: load_bytes_def upt_rec console_simps)
  have h64: "unat (0x1000 :: u32) mod 8 = 0 \<and>
      HostIsRAMAddress machine_ops console 0x1000 Physical \<and>
      HostIsRAMAddress machine_ops console (0x1000 + 4) Physical \<and>
      load_bytes (ram console) 0x1000 8 \<noteq> None"
    by (simp add: console_is_ram)
      (simp add: ops_simps load_bytes_def upt_rec console_simps)
  have hno: "\<not> HostIsRAMAddress machine_ops console 0x02000000 Physical"
    by (simp add: console_is_ram)
  note w32 = C8_physical_round_trip [where s = console and a = "0x1000"
      and ?v32.0 = "0xDEADBEEF",
      THEN conjunct2, THEN conjunct2, THEN conjunct1, THEN mp, OF h32]
  note w64 = C8_physical_round_trip [where s = console and a = "0x1000"
      and ?v64.0 = "0x1122334455667788",
      THEN conjunct2, THEN conjunct2, THEN conjunct2, THEN conjunct1, THEN mp, OF h64]
  note wno = C8_physical_round_trip [where s = console and a = "0x02000000"
      and ?v32.0 = "0xDEADBEEF" and ?v64.0 = "0x1122334455667788",
      THEN conjunct2, THEN conjunct2, THEN conjunct2, THEN conjunct2, THEN mp, OF hno]
  from h32 w32 h64 w64 hno wno show ?thesis
    by blast
qed

subsection \<open>C9: the word order of a 64-bit write\<close>

text \<open>
  Claim C9: a 64-bit value written through \<open>HostWrite\<close>, \<open>HostTryWrite\<close> (when it
  returns a value) or the guest \<open>Write\<close> goes out as two 32-bit hardware writes: the
  most significant 32 bits at the address, then the least significant 32 bits at the
  address plus 4. The two words are the quotient and the remainder of the value by
  \<open>2^32\<close> and concatenate to it. The guest \<open>Write\<close> runs \<open>Memcheck\<close> on the whole value
  first.
\<close>

theorem C9_word_order:
  fixes mmu :: "'s MMU_ops" and var :: u64
  shows
  "word_cat (ucast (drop_bit 32 var) :: u32) (ucast var :: u32) = var \<and>
   unat (ucast (drop_bit 32 var) :: u32) = unat var div 2 ^ 32 \<and>
   unat (ucast var :: u32) = unat var mod 2 ^ 32 \<and>
   HostWrite_Size64 mmu var addr s =
     WriteToHardware mmu NoException False (addr + 4) (ucast var) 4
       (WriteToHardware mmu NoException False addr (ucast (drop_bit 32 var)) 4 s) \<and>
   Write_guest_Size64 mmu var addr s =
     WriteToHardware mmu Write False (addr + 4) (ucast var) 4
       (WriteToHardware mmu Write False addr (ucast (drop_bit 32 var)) 4
          (Memcheck mmu addr var True 8 s)) \<and>
   (fst (HostTryWrite_Size64 mmu var addr space s) \<noteq> None \<longrightarrow>
      snd (HostTryWrite_Size64 mmu var addr space s) =
        WriteToHardware mmu NoException (space = Physical) (addr + 4) (ucast var) 4
          (WriteToHardware mmu NoException (space = Physical) addr (ucast (drop_bit 32 var)) 4 s))"
proof -
  have cat: "word_cat (ucast (drop_bit 32 var) :: u32) (ucast var :: u32) = var"
    by (rule bit_eqI) (auto simp: bit_simps)
  have hi: "unat (ucast (drop_bit 32 var) :: u32) = unat var div 2 ^ 32"
  proof -
    have "unat var < 2 ^ 64" using unsigned_less [of var] by simp
    then have "unat var div 2 ^ 32 < 2 ^ 32"
      by (simp add: less_mult_imp_div_less)
    then show ?thesis
      by (simp add: unsigned_ucast_eq take_bit_eq_mod drop_bit_eq_div unat_div)
  qed
  have lo: "unat (ucast var :: u32) = unat var mod 2 ^ 32"
    by (simp add: unsigned_ucast_eq take_bit_eq_mod)
  have h: "HostWrite_Size64 mmu var addr s =
     WriteToHardware mmu NoException False (addr + 4) (ucast var) 4
       (WriteToHardware mmu NoException False addr (ucast (drop_bit 32 var)) 4 s)"
    by (simp add: HostWrite_Size64_def Let_def)
  have g: "Write_guest_Size64 mmu var addr s =
     WriteToHardware mmu Write False (addr + 4) (ucast var) 4
       (WriteToHardware mmu Write False addr (ucast (drop_bit 32 var)) 4
          (Memcheck mmu addr var True 8 s))"
    by (simp add: Write_guest_Size64_def Let_def)
  have t: "fst (HostTryWrite_Size64 mmu var addr space s) \<noteq> None \<longrightarrow>
      snd (HostTryWrite_Size64 mmu var addr space s) =
        WriteToHardware mmu NoException (space = Physical) (addr + 4) (ucast var) 4
          (WriteToHardware mmu NoException (space = Physical) addr (ucast (drop_bit 32 var)) 4 s)"
  proof
    assume a: "fst (HostTryWrite_Size64 mmu var addr space s) \<noteq> None"
    let ?first = "HostTryWrite mmu 4 (ucast (drop_bit 32 var) :: u32) addr space s"
    from a have ne: "fst ?first \<noteq> None"
      by (cases ?first) (auto simp: HostTryWrite_Size64_def split: option.splits)
    then have eq: "HostTryWrite_Size64 mmu var addr space s =
        HostTryWrite mmu 4 (ucast var :: u32) (addr + 4) space (snd ?first)"
      by (cases ?first) (auto simp: HostTryWrite_Size64_def)
    from a have ne2: "fst (HostTryWrite mmu 4 (ucast var :: u32) (addr + 4) space (snd ?first)) \<noteq> None"
      by (simp add: eq)
    have s1: "snd ?first =
        WriteToHardware mmu NoException (space = Physical) addr (ucast (drop_bit 32 var)) 4 s"
      using HostTryWrite_Some [OF ne] by simp
    have s2: "snd (HostTryWrite mmu 4 (ucast var :: u32) (addr + 4) space (snd ?first)) =
        WriteToHardware mmu NoException (space = Physical) (addr + 4) (ucast var) 4 (snd ?first)"
      using HostTryWrite_Some [OF ne2] by simp
    show "snd (HostTryWrite_Size64 mmu var addr space s) =
        WriteToHardware mmu NoException (space = Physical) (addr + 4) (ucast var) 4
          (WriteToHardware mmu NoException (space = Physical) addr (ucast (drop_bit 32 var)) 4 s)"
      by (simp only: eq s2) (simp only: s1)
  qed
  from cat hi lo h g t show ?thesis by blast
qed

text \<open>
  Witness for C9: \<open>0x1122334455667788\<close> written at \<open>0x80001000\<close> on the example machine
  ends as the bytes \<open>11 22 33 44 55 66 77 88\<close> from physical address \<open>0x1000\<close>.
\<close>

theorem C9_word_order_witness:
  "fst (HostTryWrite_Size64 machine_ops 0x1122334455667788 0x80001000 Effective console) \<noteq> None \<and>
   snd (HostTryWrite_Size64 machine_ops 0x1122334455667788 0x80001000 Effective console) =
     WriteToHardware machine_ops NoException (Effective = Physical) (0x80001000 + 4)
       (ucast (0x1122334455667788 :: u64)) 4
       (WriteToHardware machine_ops NoException (Effective = Physical) 0x80001000
          (ucast (drop_bit 32 (0x1122334455667788 :: u64))) 4 console) \<and>
   map (ram (snd (HostTryWrite_Size64 machine_ops 0x1122334455667788 0x80001000 Effective console)))
     [0x1000, 0x1001, 0x1002, 0x1003, 0x1004, 0x1005, 0x1006, 0x1007] =
     [Some 0x11, Some 0x22, Some 0x33, Some 0x44, Some 0x55, Some 0x66, Some 0x77, Some 0x88]"
proof -
  have ok: "fst (HostTryWrite_Size64 machine_ops 0x1122334455667788 0x80001000 Effective console)
      \<noteq> None"
    by (simp add: console_try_write64)
  note order = C9_word_order [of "0x1122334455667788" machine_ops "0x80001000" console Effective,
      THEN conjunct2, THEN conjunct2, THEN conjunct2, THEN conjunct2, THEN conjunct2,
      THEN mp, OF ok]
  from ok order console_try_write64(3) show ?thesis
    by blast
qed

subsection \<open>C10: the RAM guard\<close>

text \<open>
  Claim C10: \<open>HostTryRead\<close> and \<open>HostTryWrite\<close> consult \<open>HostIsRAMAddress\<close> first. When
  it reports false they return an absent result and leave the machine as it was, whatever
  the hardware operations are, so no memory access is made; hence a present result
  implies that the address resolves to RAM in the requested space (for the 64-bit write:
  the address before the first sub-write and the address plus 4 after it).
\<close>

theorem C10_ram_guard:
  fixes mmu :: "'s MMU_ops"
  shows
  "(\<not> HostIsRAMAddress mmu s addr space \<longrightarrow>
      (HostTryRead mmu addr space s :: ('a::len word) ReadResult option \<times> 's) = (None, s) \<and>
      HostTryWrite mmu sz (var :: 'b::len word) addr space s = (None, s) \<and>
      HostTryWrite_Size64 mmu var64 addr space s = (None, s)) \<and>
   (fst (HostTryRead mmu addr space s :: ('a::len word) ReadResult option \<times> 's) \<noteq> None \<longrightarrow>
      HostIsRAMAddress mmu s addr space) \<and>
   (fst (HostTryWrite mmu sz var addr space s) \<noteq> None \<longrightarrow>
      HostIsRAMAddress mmu s addr space) \<and>
   (fst (HostTryWrite_Size64 mmu var64 addr space s) \<noteq> None \<longrightarrow>
      HostIsRAMAddress mmu s addr space \<and>
      HostIsRAMAddress mmu
        (WriteToHardware mmu NoException (space = Physical) addr (ucast (drop_bit 32 var64)) 4 s)
        (addr + 4) space)"
proof -
  let ?first = "HostTryWrite mmu 4 (ucast (drop_bit 32 var64) :: u32) addr space s"
  have r: "\<not> HostIsRAMAddress mmu s addr space \<Longrightarrow>
      (HostTryRead mmu addr space s :: ('a::len word) ReadResult option \<times> 's) = (None, s)"
    by (simp add: HostTryRead_def)
  have w: "\<not> HostIsRAMAddress mmu s addr space \<Longrightarrow> HostTryWrite mmu sz v addr space s = (None, s)"
    for sz and v :: "'c::len word"
    by (simp add: HostTryWrite_def)
  have w64: "\<not> HostIsRAMAddress mmu s addr space \<Longrightarrow>
      HostTryWrite_Size64 mmu var64 addr space s = (None, s)"
    by (simp add: HostTryWrite_Size64_def w)
  have r': "fst (HostTryRead mmu addr space s :: ('a::len word) ReadResult option \<times> 's) \<noteq> None \<Longrightarrow>
      HostIsRAMAddress mmu s addr space"
    by (cases space) (auto simp: HostTryRead_def split: if_splits prod.splits)
  have w': "fst (HostTryWrite mmu sz v a space t) \<noteq> None \<Longrightarrow> HostIsRAMAddress mmu t a space"
    for sz a t and v :: "'c::len word"
    by (cases space) (auto simp: HostTryWrite_def Let_def split: if_splits)
  have w64': "fst (HostTryWrite_Size64 mmu var64 addr space s) \<noteq> None \<Longrightarrow>
      HostIsRAMAddress mmu s addr space \<and>
      HostIsRAMAddress mmu
        (WriteToHardware mmu NoException (space = Physical) addr (ucast (drop_bit 32 var64)) 4 s)
        (addr + 4) space"
  proof -
    assume a: "fst (HostTryWrite_Size64 mmu var64 addr space s) \<noteq> None"
    from a have ne: "fst ?first \<noteq> None"
      by (cases ?first) (auto simp: HostTryWrite_Size64_def split: option.splits)
    then have eq: "HostTryWrite_Size64 mmu var64 addr space s =
        HostTryWrite mmu 4 (ucast var64 :: u32) (addr + 4) space (snd ?first)"
      by (cases ?first) (auto simp: HostTryWrite_Size64_def)
    from a have "HostIsRAMAddress mmu (snd ?first) (addr + 4) space"
      unfolding eq by (rule w')
    moreover have "snd ?first =
        WriteToHardware mmu NoException (space = Physical) addr (ucast (drop_bit 32 var64)) 4 s"
      using HostTryWrite_Some [OF ne] by simp
    ultimately show ?thesis
      using w' [OF ne] by simp
  qed
  from r w w64 r' w' w64' show ?thesis by blast
qed

text \<open>
  Witness for C10: an MMIO address in \<open>Physical\<close> space, and a BAT-mapped RAM address in
  \<open>Effective\<close> space, on the example machine.
\<close>

theorem C10_ram_guard_witness:
  "\<not> HostIsRAMAddress machine_ops console 0x0C000000 Physical \<and>
   ((HostTryRead machine_ops 0x0C000000 Physical console :: u32 ReadResult option \<times> Machine) =
      (None, console) \<and>
    HostTryWrite machine_ops 4 (0xDEADBEEF :: u32) 0x0C000000 Physical console = (None, console) \<and>
    HostTryWrite_Size64 machine_ops 0x1122334455667788 0x0C000000 Physical console =
      (None, console)) \<and>
   fst (HostTryRead machine_ops 0x80001000 Effective console :: u32 ReadResult option \<times> Machine)
     \<noteq> None \<and>
   HostIsRAMAddress machine_ops console 0x80001000 Effective"
proof -
  have no: "\<not> HostIsRAMAddress machine_ops console 0x0C000000 Physical"
    by (simp add: console_is_ram)
  have r: "fst (HostTryRead machine_ops 0x80001000 Effective console
      :: u32 ReadResult option \<times> Machine) \<noteq> None"
    by (simp add: console_try_read)
  note absent = C10_ram_guard [of machine_ops console "0x0C000000" Physical 4 "0xDEADBEEF :: u32"
      "0x1122334455667788", where ?'a = 32, THEN conjunct1, THEN mp, OF no]
  note present = C10_ram_guard [of machine_ops console "0x80001000" Effective 4 "0xDEADBEEF :: u32"
      "0x1122334455667788", where ?'a = 32, THEN conjunct2, THEN conjunct1, THEN mp, OF r]
  from no absent r present show ?thesis
    by blast
qed

end
